theory Spec2Isabelle
  imports Complex_Main "HOL-Library.AList" "HOL-Library.Char_ord" "HOL-Library.List_Lexorder"
    "HOL-Library.Multiset"
begin

section \<open>Values and records\<close>

text \<open>
  A field of a row object (\<^verbatim>\<open>Record<string, unknown>\<close>) holds a JavaScript value.
  The kinds that occur in a row of the store are a number (a \<^verbatim>\<open>double precision\<close>
  column), \<^verbatim>\<open>null\<close>, a string (ids, the year, the category labels) and an object
  (the \<^verbatim>\<open>jsonb\<close> report summary). \<open>JNaN\<close> is the number for which \<^verbatim>\<open>isNaN\<close>
  holds; every other number is modelled as a real, so the rounding of the sums of
  IEEE doubles is not modelled.
\<close>

datatype jsval = JNum real | JNaN | JNull | JStr string | JObj

text \<open>An object is an association list in insertion order, as \<^verbatim>\<open>Object.entries\<close> lists it.\<close>

type_synonym jsobject = "(string \<times> jsval) list"

text \<open>The four levels of the hierarchy (the \<^verbatim>\<open>location_type\<close> enum).\<close>

datatype LocationType = COUNTRY | STATE | DISTRICT | TALUK

text \<open>The \<^verbatim>\<open>location\<close> of a record: \<^verbatim>\<open>{ id, name, type }\<close>.\<close>

record Location =
  locId :: string
  locName :: string
  locType :: LocationType

record GroundwaterRecord =
  location :: Location
  year :: string
  data :: jsobject

section \<open>Aggregation (utils/aggregation.ts)\<close>

text \<open>
  \<^verbatim>\<open>
  function determineCategoryFromStage(stage: number | undefined): string {
    if (!stage) return "Unknown";
    if (stage < 70) return "Safe";
    if (stage < 90) return "Semi-Critical";
    if (stage < 100) return "Critical";
    return "Over-Exploited";
  }
  \<close>
  The argument is a field of the accumulator, which holds sums of real numbers only:
  \<open>None\<close> is \<^verbatim>\<open>undefined\<close>, and \<^verbatim>\<open>!stage\<close> holds for \<^verbatim>\<open>undefined\<close> and for zero.
\<close>

definition determineCategoryFromStage :: "real option \<Rightarrow> string" where
  "determineCategoryFromStage stage =
     (case stage of
        None \<Rightarrow> ''Unknown''
      | Some s \<Rightarrow>
          if s = 0 then ''Unknown''
          else if s < 70 then ''Safe''
          else if s < 90 then ''Semi-Critical''
          else if s < 100 then ''Critical''
          else ''Over-Exploited'')"

text \<open>\<^verbatim>\<open>aggregated[key] || 0\<close>: an absent or zero entry reads as zero.\<close>

definition orZero :: "real option \<Rightarrow> real" where
  "orZero v = (case v of None \<Rightarrow> 0 | Some x \<Rightarrow> if x = 0 then 0 else x)"

text \<open>
  The body of the inner loop:
  \<^verbatim>\<open>
  if (typeof value === "number" && !isNaN(value)) {
    aggregated[key] = (aggregated[key] || 0) + value;
  }
  \<close>
\<close>

fun addEntry :: "string \<times> jsval \<Rightarrow> (string \<times> real) list \<Rightarrow> (string \<times> real) list" where
  "addEntry (key, JNum v) aggregated =
     AList.update key (orZero (map_of aggregated key) + v) aggregated"
| "addEntry (key, _) aggregated = aggregated"

text \<open>\<^verbatim>\<open>for (const [key, value] of Object.entries(data))\<close>\<close>

definition addRecord :: "GroundwaterRecord \<Rightarrow> (string \<times> real) list \<Rightarrow> (string \<times> real) list" where
  "addRecord record aggregated = fold addEntry (data record) aggregated"

text \<open>\<^verbatim>\<open>for (const record of records)\<close>, starting from the empty accumulator.\<close>

definition sumRecords :: "GroundwaterRecord list \<Rightarrow> (string \<times> real) list" where
  "sumRecords records = fold addRecord records []"

text \<open>
  The object literal of the result: the spread of the accumulator, then the four
  category keys, each overwriting an entry of the same key.
\<close>

definition mergedData :: "(string \<times> real) list \<Rightarrow> jsobject" where
  "mergedData aggregated =
     AList.update ''categoryPoorQuality'' JNull
       (AList.update ''categoryNonCommand'' JNull
         (AList.update ''categoryCommand'' JNull
           (AList.update ''categoryTotal''
              (JStr (determineCategoryFromStage (map_of aggregated ''stageOfExtractionTotal'')))
              (map (\<lambda>(k, x). (k, JNum x)) aggregated))))"

text \<open>
  \<^verbatim>\<open>
  if (records.length === 0) return null;
  if (records.length === 1) return records[0];
  const first = records[0];
  ...
  return { location: first.location, year: first.year, data: { ... } };
  \<close>
\<close>

fun aggregateGroundwaterRecords :: "GroundwaterRecord list \<Rightarrow> GroundwaterRecord option" where
  "aggregateGroundwaterRecords [] = None"
| "aggregateGroundwaterRecords [r] = Some r"
| "aggregateGroundwaterRecords (first # rest) =
     Some \<lparr> location = location first, year = year first,
            data = mergedData (sumRecords (first # rest)) \<rparr>"

subsection \<open>Reading a field of a record\<close>

text \<open>Whether a field is a number that the aggregator adds, and its value (zero otherwise).\<close>

fun isNumeric :: "jsval option \<Rightarrow> bool" where
  "isNumeric (Some (JNum v)) = True"
| "isNumeric _ = False"

fun numericValue :: "jsval option \<Rightarrow> real" where
  "numericValue (Some (JNum v)) = v"
| "numericValue _ = 0"

definition field :: "GroundwaterRecord \<Rightarrow> string \<Rightarrow> jsval option" where
  "field r k = map_of (data r) k"

definition fieldSum :: "GroundwaterRecord list \<Rightarrow> string \<Rightarrow> real" where
  "fieldSum records k = sum_list (map (\<lambda>r. numericValue (field r k)) records)"

text \<open>
  The values that the loop adds under the key \<open>k\<close>, in the order in which it adds
  them, and the sum it accumulates: it starts from zero and adds each value in turn.
\<close>

definition addedValues :: "GroundwaterRecord list \<Rightarrow> string \<Rightarrow> real list" where
  "addedValues records k =
     concat (map (\<lambda>r. case field r k of Some (JNum v) \<Rightarrow> [v] | _ \<Rightarrow> []) records)"

definition runningSum :: "GroundwaterRecord list \<Rightarrow> string \<Rightarrow> real" where
  "runningSum records k = foldl (+) 0 (addedValues records k)"

definition categoryKeys :: "string set" where
  "categoryKeys =
     {''categoryTotal'', ''categoryCommand'', ''categoryNonCommand'', ''categoryPoorQuality''}"

text \<open>An object has each key once.\<close>

definition wellFormed :: "GroundwaterRecord \<Rightarrow> bool" where
  "wellFormed r = distinct (map fst (data r))"

section \<open>Year filtering (utils/yearFiltering.ts, the last part of scripts/seedGroundwaterData.ts)\<close>

text \<open>
  \<^verbatim>\<open>
  export interface YearFilterParams {
    year?: string; fromYear?: string; toYear?: string; specificYears?: string[];
  }
  export interface FilteredYearsResult {
    isHistorical: boolean; yearsToQuery: string[]; targetYear: string;
  }
  \<close>
  An optional property is an \<open>option\<close>. The field \<^verbatim>\<open>year\<close> of the parameters is
  \<open>yearParam\<close> here, the name \<open>year\<close> being the year of a record.
\<close>

record YearFilterParams =
  yearParam :: "string option"
  fromYear :: "string option"
  toYear :: "string option"
  specificYears :: "string list option"

record FilteredYearsResult =
  isHistorical :: bool
  yearsToQuery :: "string list"
  targetYear :: string

text \<open>
  An optional string in a condition (\<^verbatim>\<open>if (fromYear)\<close>, \<^verbatim>\<open>year || ...\<close>) counts as true
  when it is defined and not the empty string.
\<close>

fun truthy :: "string option \<Rightarrow> bool" where
  "truthy None = False"
| "truthy (Some s) = (s \<noteq> [])"

text \<open>\<^verbatim>\<open>a || b\<close> on an optional string and a default.\<close>

fun orElse :: "string option \<Rightarrow> string \<Rightarrow> string" where
  "orElse None d = d"
| "orElse (Some s) d = (if s = [] then d else s)"

text \<open>
  \<^verbatim>\<open>specificYears && specificYears.length > 0\<close>, and the array read under that
  condition.
\<close>

fun listGiven :: "string list option \<Rightarrow> bool" where
  "listGiven None = False"
| "listGiven (Some ys) = (0 < length ys)"

fun listOf :: "string list option \<Rightarrow> string list" where
  "listOf None = []"
| "listOf (Some ys) = ys"

text \<open>
  The predicate of the range filter. Strings are compared as JavaScript compares them,
  code unit by code unit, which is the lexicographic order of \<open>char list\<close>.
  \<^verbatim>\<open>
  (y) => {
    if (fromYear && toYear) return y >= fromYear && y <= toYear;
    if (fromYear) return y >= fromYear;
    if (toYear) return y <= toYear;
    return true;
  }
  \<close>
\<close>

definition inRange :: "string option \<Rightarrow> string option \<Rightarrow> string \<Rightarrow> bool" where
  "inRange from to y =
     (if truthy from \<and> truthy to then orElse from [] \<le> y \<and> y \<le> orElse to []
      else if truthy from then orElse from [] \<le> y
      else if truthy to then y \<le> orElse to []
      else True)"

text \<open>
  \<^verbatim>\<open>
  export async function getFilteredYears(params) {
    const { year, fromYear, toYear, specificYears } = params;
    const targetYear = year || "2024-2025";
    if (!fromYear && !toYear && !specificYears) {
      return { isHistorical: false, yearsToQuery: [targetYear], targetYear };
    }
    const availableYears = await getAvailableYears();
    let yearsToQuery = availableYears;
    if (specificYears && specificYears.length > 0) {
      yearsToQuery = availableYears.filter((y) => specificYears.includes(y));
    } else if (fromYear || toYear) {
      yearsToQuery = availableYears.filter((y) => { ... });
    }
    return { isHistorical: true, yearsToQuery, targetYear };
  }
  \<close>
  The first argument is what \<^verbatim>\<open>getAvailableYears()\<close> returns: the distinct years of
  the store, sorted. An array is true in a condition also when it is empty.
\<close>

definition getFilteredYears :: "string list \<Rightarrow> YearFilterParams \<Rightarrow> FilteredYearsResult" where
  "getFilteredYears availableYears params =
     (let target = orElse (yearParam params) ''2024-2025'' in
      if \<not> truthy (fromYear params) \<and> \<not> truthy (toYear params) \<and> specificYears params = None
      then \<lparr> isHistorical = False, yearsToQuery = [target], targetYear = target \<rparr>
      else
        \<lparr> isHistorical = True,
          yearsToQuery =
            (if listGiven (specificYears params)
             then filter (\<lambda>y. y \<in> set (listOf (specificYears params))) availableYears
             else if truthy (fromYear params) \<or> truthy (toYear params)
             then filter (inRange (fromYear params) (toYear params)) availableYears
             else availableYears),
          targetYear = target \<rparr>)"

text \<open>
  \<^verbatim>\<open>
  export function filterRecordsByYear(records, params) {
    const { fromYear, toYear, specificYears } = params;
    if (specificYears && specificYears.length > 0)
      return records.filter((r) => specificYears.includes(r.year));
    if (fromYear || toYear) return records.filter((r) => { ... });
    return records;
  }
  \<close>
  The records are any objects with a year; \<open>yearOf\<close> reads it.
\<close>

definition filterRecordsByYear :: "('a \<Rightarrow> string) \<Rightarrow> 'a list \<Rightarrow> YearFilterParams \<Rightarrow> 'a list" where
  "filterRecordsByYear yearOf records params =
     (if listGiven (specificYears params)
      then filter (\<lambda>r. yearOf r \<in> set (listOf (specificYears params))) records
      else if truthy (fromYear params) \<or> truthy (toYear params)
      then filter (\<lambda>r. inRange (fromYear params) (toYear params) (yearOf r)) records
      else records)"

section \<open>Location search (services/locationSearch.ts, unnamed/part 001)\<close>

text \<open>
  \<^verbatim>\<open>
  export interface LocationRecord {
    id: string; externalId: string | null; name: string;
    type: "COUNTRY" | "STATE" | "DISTRICT" | "TALUK"; parentId: string | null;
  }
  \<close>
  The fields \<^verbatim>\<open>id\<close>, \<^verbatim>\<open>name\<close> and \<^verbatim>\<open>type\<close> carry the prefix \<open>lr\<close>.
\<close>

record LocationRecord =
  lrId :: string
  externalId :: "string option"
  lrName :: string
  lrType :: LocationType
  parentId :: "string option"

text \<open>
  A result of \<^verbatim>\<open>fuse.search\<close>: the item and its distance, which the library may leave
  undefined. The index itself belongs to the library fuse.js: it is a function from
  the query to the ordered results, and building it from the catalog
  (\<^verbatim>\<open>new Fuse(locationCache, options)\<close>) is a parameter of the model.
\<close>

record FuseResult =
  item :: LocationRecord
  score :: "real option"

type_synonym Fuse = "string \<Rightarrow> FuseResult list"

record SearchResult =
  resultLocation :: LocationRecord
  resultScore :: real



datatype error =
  NotInitialized  \<comment> \<open>"Location search not initialized. Call initLocationSearch first."\<close>
| InitFailed nat  \<comment> \<open>"Failed to initialize location search after n attempts"\<close>

subsection \<open>Normalising a name\<close>

text \<open>
  Strings are lists of ASCII code units. \<^verbatim>\<open>replace(/[_-]/g, " ")\<close>, \<^verbatim>\<open>trim()\<close> (the
  ASCII white space: tab, line feed, vertical tab, form feed, carriage return, space)
  and \<^verbatim>\<open>toLowerCase()\<close> (the letters A to Z).
\<close>

definition replaceSeparators :: "string \<Rightarrow> string" where
  "replaceSeparators s =
     map (\<lambda>c. if c = CHR ''_'' \<or> c = CHR ''-'' then CHR '' '' else c) s"

definition isWhiteSpace :: "char \<Rightarrow> bool" where
  "isWhiteSpace c \<longleftrightarrow>
     c = CHR 0x09 \<or> c = CHR 0x0A \<or> c = CHR 0x0B \<or> c = CHR 0x0C \<or> c = CHR 0x0D \<or> c = CHR '' ''"

definition trim :: "string \<Rightarrow> string" where
  "trim s = rev (dropWhile isWhiteSpace (rev (dropWhile isWhiteSpace s)))"

definition lowerChar :: "char \<Rightarrow> char" where
  "lowerChar c =
     (case map_of (zip ''ABCDEFGHIJKLMNOPQRSTUVWXYZ'' ''abcdefghijklmnopqrstuvwxyz'') c of
        Some l \<Rightarrow> l
      | None \<Rightarrow> c)"

definition toLowerCase :: "string \<Rightarrow> string" where
  "toLowerCase s = map lowerChar s"

subsection \<open>Initialisation\<close>



subsection \<open>Searching\<close>

text \<open>\<^verbatim>\<open>r.item.parentId ?? ""\<close>\<close>

definition parentIdOrEmpty :: "FuseResult \<Rightarrow> string" where
  "parentIdOrEmpty r = (case parentId (item r) of None \<Rightarrow> [] | Some p \<Rightarrow> p)"

text \<open>
  The block that narrows the results by the parent name; the source has it twice, for
  a district (parents are states) and for a taluk (parents are districts).
  \<^verbatim>\<open>
  const normalizedParent = parentName.replace(/[_-]/g, " ").trim().toLowerCase();
  const stateResults = fuse.search(normalizedParent);
  const matchingStateIds = stateResults
    .filter((r) => r.item.type === "STATE").slice(0, 3).map((r) => r.item.id);
  if (matchingStateIds.length > 0) {
    const parentFiltered = filtered.filter((r) =>
      matchingStateIds.includes(r.item.parentId ?? ""));
    if (parentFiltered.length > 0) { filtered = parentFiltered; }
  }
  \<close>
\<close>

definition matchingParentIds :: "Fuse \<Rightarrow> string \<Rightarrow> LocationType \<Rightarrow> string list" where
  "matchingParentIds search parentName parentType =
     (let normalizedParent = toLowerCase (trim (replaceSeparators parentName));
          parentResults = search normalizedParent
      in map (\<lambda>r. lrId (item r)) (take 3 (filter (\<lambda>r. lrType (item r) = parentType) parentResults)))"

definition narrowByParent ::
  "Fuse \<Rightarrow> string \<Rightarrow> LocationType \<Rightarrow> FuseResult list \<Rightarrow> FuseResult list" where
  "narrowByParent search parentName parentType filtered =
     (let matchingIds = matchingParentIds search parentName parentType
      in if 0 < length matchingIds then
           (let parentFiltered = filter (\<lambda>r. parentIdOrEmpty r \<in> set matchingIds) filtered
            in if 0 < length parentFiltered then parentFiltered else filtered)
         else filtered)"

text \<open>
  \<^verbatim>\<open>
  return filtered.slice(0, 5).map((r) => ({
    location: r.item, score: 1 - (r.score ?? 0) }));
  \<close>
\<close>

definition toSearchResult :: "FuseResult \<Rightarrow> SearchResult" where
  "toSearchResult r =
     \<lparr> resultLocation = item r,
       resultScore = 1 - (case score r of None \<Rightarrow> 0 | Some s \<Rightarrow> s) \<rparr>"

text \<open>
  \<^verbatim>\<open>
  export function searchLocation(query, type?, parentName?) {
    if (!fuse) { throw new Error("Location search not initialized. ..."); }
    const normalizedQuery = query.replace(/[_-]/g, " ").trim();
    const results = fuse.search(normalizedQuery);
    let filtered = results;
    if (type) { filtered = results.filter((r) => r.item.type === type); }
    if (parentName && type === "DISTRICT") { ... }
    if (parentName && type === "TALUK") { ... }
    return filtered.slice(0, 5).map(...);
  }
  \<close>
  The first argument is the module variable \<^verbatim>\<open>fuse\<close>.
\<close>

definition searchLocation ::
  "Fuse option \<Rightarrow> string \<Rightarrow> LocationType option \<Rightarrow> string option \<Rightarrow> error + SearchResult list" where
  "searchLocation fuseVar query type parentName =
     (case fuseVar of
        None \<Rightarrow> Inl NotInitialized
      | Some search \<Rightarrow>
          (let normalizedQuery = trim (replaceSeparators query);
               results = search normalizedQuery;
               filtered = (case type of None \<Rightarrow> results
                           | Some t \<Rightarrow> filter (\<lambda>r. lrType (item r) = t) results);
               filtered1 = (if truthy parentName \<and> type = Some DISTRICT
                            then narrowByParent search (orElse parentName []) STATE filtered
                            else filtered);
               filtered2 = (if truthy parentName \<and> type = Some TALUK
                            then narrowByParent search (orElse parentName []) DISTRICT filtered1
                            else filtered1)
           in Inr (map toSearchResult (take 5 filtered2))))"




subsection \<open>Reading the catalog\<close>

text \<open>
  The functions that read \<^verbatim>\<open>locationCache\<close>, which is their first argument here. None
  of them looks at \<^verbatim>\<open>fuse\<close>.
  \<^verbatim>\<open>
  export function getAllStates() { return locationCache.filter((l) => l.type === "STATE"); }
  export function getAllDistricts() { return locationCache.filter((l) => l.type === "DISTRICT"); }
  export function getDistrictsOfState(stateId) {
    return locationCache.filter((l) => l.type === "DISTRICT" && l.parentId === stateId); }
  export function getTaluksOfDistrict(districtId) {
    return locationCache.filter((l) => l.type === "TALUK" && l.parentId === districtId); }
  export function getLocationsByNameAndType(name, type) {
    const normalizedName = name.replace(/[_-]/g, " ").trim().toLowerCase();
    return locationCache.filter((l) =>
      l.type === type &&
      l.name.replace(/[_-]/g, " ").trim().toLowerCase() === normalizedName);
  }
  \<close>
\<close>

definition getAllStates :: "LocationRecord list \<Rightarrow> LocationRecord list" where
  "getAllStates cache = filter (\<lambda>l. lrType l = STATE) cache"

definition getAllDistricts :: "LocationRecord list \<Rightarrow> LocationRecord list" where
  "getAllDistricts cache = filter (\<lambda>l. lrType l = DISTRICT) cache"

definition getDistrictsOfState :: "LocationRecord list \<Rightarrow> string \<Rightarrow> LocationRecord list" where
  "getDistrictsOfState cache stateId =
     filter (\<lambda>l. lrType l = DISTRICT \<and> parentId l = Some stateId) cache"

definition getTaluksOfDistrict :: "LocationRecord list \<Rightarrow> string \<Rightarrow> LocationRecord list" where
  "getTaluksOfDistrict cache districtId =
     filter (\<lambda>l. lrType l = TALUK \<and> parentId l = Some districtId) cache"


section \<open>The store and its queries (services/groundwaterService.ts, in services/llm.ts)\<close>

text \<open>
  A row of \<^verbatim>\<open>groundwater_data\<close>: its id, its location, its year (the three columns that
  are not null) and the other columns as an object keyed by the field names of the
  schema (\<^verbatim>\<open>rainfallTotal\<close>, \<^verbatim>\<open>categoryTotal\<close>, ...). A \<^verbatim>\<open>double precision\<close> column
  holds a finite number or null: \<open>JNaN\<close> is not stored.
\<close>

record GwRow =
  gwId :: string
  gwLocationId :: string
  gwYear :: string
  gwFields :: jsobject

text \<open>The object the query returns for the row (\<^verbatim>\<open>row.groundwater_data\<close>).\<close>

definition rowObject :: "GwRow \<Rightarrow> jsobject" where
  "rowObject g =
     (''id'', JStr (gwId g)) # (''locationId'', JStr (gwLocationId g)) #
     (''year'', JStr (gwYear g)) # gwFields g"

record Store =
  locations :: "LocationRecord list"
  groundwaterData :: "GwRow list"

text \<open>
  \<^verbatim>\<open>db.select().from(groundwaterData)
     .innerJoin(locations, eq(groundwaterData.locationId, locations.id))\<close>
\<close>

definition innerJoin :: "Store \<Rightarrow> (GwRow \<times> LocationRecord) list" where
  "innerJoin db =
     concat (map (\<lambda>g. map (\<lambda>l. (g, l)) (filter (\<lambda>l. gwLocationId g = lrId l) (locations db)))
       (groundwaterData db))"

text \<open>
  \<^verbatim>\<open>
  (row) => ({
    location: { id: row.locations.id, name: row.locations.name, type: row.locations.type },
    year: row.groundwater_data.year,
    data: row.groundwater_data })
  \<close>
\<close>

definition toRecord :: "GwRow \<times> LocationRecord \<Rightarrow> GroundwaterRecord" where
  "toRecord row =
     \<lparr> location = \<lparr> locId = lrId (snd row), locName = lrName (snd row), locType = lrType (snd row) \<rparr>,
       year = gwYear (fst row),
       data = rowObject (fst row) \<rparr>"

definition LATEST_YEAR :: string where
  "LATEST_YEAR = ''2024-2025''"

text \<open>
  \<^verbatim>\<open>
  export async function getGroundwaterDataByLocationId(locationId, year = LATEST_YEAR) {
    const result = await db.select()...
      .where(and(eq(locations.id, locationId), eq(groundwaterData.year, year)));
    if (result.length === 0) return null;
    const records = result.map(...);
    return aggregateGroundwaterRecords(records);
  }
  \<close>
\<close>

definition getGroundwaterDataByLocationId ::
  "Store \<Rightarrow> string \<Rightarrow> string \<Rightarrow> GroundwaterRecord option" where
  "getGroundwaterDataByLocationId db locationId yr =
     (let result = filter (\<lambda>row. lrId (snd row) = locationId \<and> gwYear (fst row) = yr) (innerJoin db)
      in if length result = 0 then None
         else aggregateGroundwaterRecords (map toRecord result))"

subsection \<open>Ranking by a field\<close>

text \<open>
  \<^verbatim>\<open>
  function fieldToColumn(field: string): string | null {
    const fieldMap = { rainfall: "rainfall_total", ... };
    return fieldMap[field.toLowerCase()] ?? null;
  }
  \<close>
\<close>

definition fieldMap :: "(string \<times> string) list" where
  "fieldMap =
     [(''rainfall'', ''rainfall_total''),
      (''recharge'', ''recharge_total_total''),
      (''extraction'', ''draft_total_total''),
      (''draft'', ''draft_total_total''),
      (''extractable'', ''extractable_total''),
      (''stage'', ''stage_of_extraction_total''),
      (''stage_of_extraction'', ''stage_of_extraction_total''),
      (''loss'', ''loss_total''),
      (''availability'', ''availability_future_total''),
      (''irrigation_extraction'', ''draft_agriculture_total''),
      (''domestic_extraction'', ''draft_domestic_total''),
      (''industrial_extraction'', ''draft_industry_total''),
      (''recharge_from_rainfall'', ''recharge_rainfall_total'')]"

definition fieldToColumn :: "string \<Rightarrow> string option" where
  "fieldToColumn f = map_of fieldMap (toLowerCase f)"

text \<open>
  The schema (db/gw-schema.ts) names the field of the row object for each column, as in
  \<^verbatim>\<open>rainfallTotal: doublePrecision("rainfall_total")\<close>; these are the columns that
  \<open>fieldToColumn\<close> can return.
\<close>

definition columnFields :: "(string \<times> string) list" where
  "columnFields =
     [(''rainfall_total'', ''rainfallTotal''),
      (''recharge_total_total'', ''rechargeTotalTotal''),
      (''draft_total_total'', ''draftTotalTotal''),
      (''extractable_total'', ''extractableTotal''),
      (''stage_of_extraction_total'', ''stageOfExtractionTotal''),
      (''loss_total'', ''lossTotal''),
      (''availability_future_total'', ''availabilityFutureTotal''),
      (''draft_agriculture_total'', ''draftAgricultureTotal''),
      (''draft_domestic_total'', ''draftDomesticTotal''),
      (''draft_industry_total'', ''draftIndustryTotal''),
      (''recharge_rainfall_total'', ''rechargeRainfallTotal'')]"

text \<open>
  The value of a \<^verbatim>\<open>double precision\<close> column of a row, as SQL sees it: \<open>None\<close> is
  NULL (the field is absent from the object or null).
\<close>

definition columnValue :: "GwRow \<Rightarrow> string \<Rightarrow> real option" where
  "columnValue g column =
     (case map_of columnFields column of
        None \<Rightarrow> None
      | Some key \<Rightarrow> (case map_of (gwFields g) key of Some (JNum x) \<Rightarrow> Some x | _ \<Rightarrow> None))"

text \<open>\<^verbatim>\<open>order: "asc" | "desc"\<close>\<close>

datatype SortOrder = Asc | Desc

text \<open>
  \<^verbatim>\<open>.orderBy(orderFn(sql.raw(`groundwater_data.${columnName}`)))\<close> on rows whose column is
  not null. SQL leaves the order of rows with equal values open; the model keeps them
  in the order of the join.
\<close>

definition sortValue :: "string \<Rightarrow> GwRow \<times> LocationRecord \<Rightarrow> real" where
  "sortValue column row = (case columnValue (fst row) column of None \<Rightarrow> 0 | Some x \<Rightarrow> x)"

fun orderBy ::
  "SortOrder \<Rightarrow> string \<Rightarrow> (GwRow \<times> LocationRecord) list \<Rightarrow> (GwRow \<times> LocationRecord) list" where
  "orderBy Asc column rows = sort_key (sortValue column) rows"
| "orderBy Desc column rows = sort_key (\<lambda>row. - sortValue column row) rows"

text \<open>
  \<^verbatim>\<open>
  export async function getTopLocationsByField(field, locationType, order = "desc",
      limit = 10, year = LATEST_YEAR) {
    const columnName = fieldToColumn(field);
    if (!columnName) return [];
    const orderFn = order === "desc" ? desc : asc;
    const result = await db.select().from(groundwaterData).innerJoin(...)
      .where(and(eq(locations.type, locationType), eq(groundwaterData.year, year),
                 isNotNull(sql.raw(`groundwater_data.${columnName}`))))
      .orderBy(orderFn(sql.raw(`groundwater_data.${columnName}`)))
      .limit(limit);
    return result.map(...);
  }
  \<close>
\<close>

definition qualifying ::
  "Store \<Rightarrow> string \<Rightarrow> LocationType \<Rightarrow> string \<Rightarrow> (GwRow \<times> LocationRecord) list" where
  "qualifying db columnName locationType yr =
     filter (\<lambda>row. lrType (snd row) = locationType \<and> gwYear (fst row) = yr \<and>
                   columnValue (fst row) columnName \<noteq> None)
       (innerJoin db)"

definition getTopLocationsByField ::
  "Store \<Rightarrow> string \<Rightarrow> LocationType \<Rightarrow> SortOrder \<Rightarrow> nat \<Rightarrow> string \<Rightarrow> GroundwaterRecord list" where
  "getTopLocationsByField db f locationType ord limit yr =
     (case fieldToColumn f of
        None \<Rightarrow> []
      | Some columnName \<Rightarrow>
          map toRecord
            (take limit (orderBy ord columnName (qualifying db columnName locationType yr))))"

section \<open>The ranking tool (services/gwTools.ts; utils/metrics.ts, after utils/aggregation.ts)\<close>

text \<open>
  \<^verbatim>\<open>
  export const METRIC_CONFIG = {
    rainfall: { field: "rainfallTotal", label: "Rainfall", unit: "mm" }, ... };
  export function metricToField(metric: string): string {
    return METRIC_CONFIG[metric]?.field ?? metric;
  }
  \<close>
  Of each entry only the field is modelled.
\<close>

definition METRIC_CONFIG :: "(string \<times> string) list" where
  "METRIC_CONFIG =
     [(''rainfall'', ''rainfallTotal''),
      (''recharge'', ''rechargeTotalTotal''),
      (''extraction'', ''draftTotalTotal''),
      (''extractable'', ''extractableTotal''),
      (''stage_of_extraction'', ''stageOfExtractionTotal''),
      (''loss'', ''lossTotal''),
      (''availability'', ''availabilityFutureTotal''),
      (''irrigation_extraction'', ''draftAgricultureTotal''),
      (''domestic_extraction'', ''draftDomesticTotal''),
      (''industrial_extraction'', ''draftIndustryTotal''),
      (''recharge_from_rainfall'', ''rechargeRainfallTotal''),
      (''net_balance'', ''netBalance'')]"

definition metricToField :: "string \<Rightarrow> string" where
  "metricToField metric = (case map_of METRIC_CONFIG metric of Some f \<Rightarrow> f | None \<Rightarrow> metric)"

text \<open>\<^verbatim>\<open>const value = d[metricToField(metric)] ?? null;\<close>\<close>

definition metricValue :: "string \<Rightarrow> GroundwaterRecord \<Rightarrow> jsval" where
  "metricValue metric r = (case field r (metricToField metric) of None \<Rightarrow> JNull | Some v \<Rightarrow> v)"

subsection \<open>Several years\<close>

text \<open>
  \<^verbatim>\<open>locationAggregates: Record<string, { name: string; values: number[] }>\<close>, an object
  keyed by the name of the location, in insertion order (\<^verbatim>\<open>Object.values\<close> lists the
  keys in that order; names are not written as array indices); the name stored in an
  entry is its key.
\<close>

type_synonym aggregates = "(string \<times> real list) list"

definition valuesOf :: "aggregates \<Rightarrow> string \<Rightarrow> real list" where
  "valuesOf aggs n = (case map_of aggs n of None \<Rightarrow> [] | Some vs \<Rightarrow> vs)"

text \<open>
  \<^verbatim>\<open>
  if (!locationAggregates[name]) locationAggregates[name] = { name, values: [] };
  if (value !== null) locationAggregates[name].values.push(Number(value));
  \<close>
  \<^verbatim>\<open>Number\<close> of a number is the number itself. The records come from
  \<open>getTopLocationsByField\<close>, which keeps the rows whose column is not null, and the
  column holds numbers: a value that is neither null nor a number does not reach the
  second line, and the model pushes nothing for it.
\<close>

fun pushValue :: "string \<Rightarrow> jsval \<Rightarrow> aggregates \<Rightarrow> aggregates" where
  "pushValue n (JNum x) aggs = AList.update n (valuesOf aggs n @ [x]) aggs"
| "pushValue n _ aggs = aggs"

definition noteLocation :: "string \<Rightarrow> jsval \<Rightarrow> aggregates \<Rightarrow> aggregates" where
  "noteLocation n v aggs =
     pushValue n v (if map_of aggs n = None then AList.update n [] aggs else aggs)"

text \<open>
  The entry of a yearly ranking:
  \<^verbatim>\<open>return { rank: i + 1, name, value, category: d.categoryTotal };\<close>
\<close>

record RankingEntry =
  rank :: nat
  rankName :: string
  rankValue :: jsval
  rankCategory :: "jsval option"

definition rankingEntries :: "string \<Rightarrow> GroundwaterRecord list \<Rightarrow> RankingEntry list" where
  "rankingEntries metric records =
     map (\<lambda>(i, r). \<lparr> rank = i + 1, rankName = locName (location r),
                     rankValue = metricValue metric r,
                     rankCategory = field r ''categoryTotal'' \<rparr>)
       (enumerate 0 records)"

text \<open>What the callback of \<^verbatim>\<open>records.map\<close> does to \<^verbatim>\<open>locationAggregates\<close>, record by record.\<close>

definition accumulate :: "string \<Rightarrow> GroundwaterRecord list \<Rightarrow> aggregates \<Rightarrow> aggregates" where
  "accumulate metric records aggs =
     fold (\<lambda>r. noteLocation (locName (location r)) (metricValue metric r)) records aggs"

record RankingState =
  locationAggregates :: aggregates
  yearlyRankings :: "(string \<times> RankingEntry list) list"

text \<open>
  One turn of \<^verbatim>\<open>for (const y of yearsToQuery)\<close>:
  \<^verbatim>\<open>
  const records = await getTopLocationsByField(metric, type, order, limit * 2, y);
  yearlyRankings[y] = records.map((r, i) => { ... });
  \<close>
\<close>

definition rankYear ::
  "Store \<Rightarrow> string \<Rightarrow> LocationType \<Rightarrow> SortOrder \<Rightarrow> nat \<Rightarrow> string \<Rightarrow> RankingState \<Rightarrow> RankingState" where
  "rankYear db metric t ord limit y st =
     (let records = getTopLocationsByField db metric t ord (limit * 2) y
      in \<lparr> locationAggregates = accumulate metric records (locationAggregates st),
           yearlyRankings = AList.update y (rankingEntries metric records) (yearlyRankings st) \<rparr>)"

text \<open>
  \<^verbatim>\<open>
  (loc) => ({
    name: loc.name,
    avgValue: loc.values.length
      ? loc.values.reduce((a, b) => a + b, 0) / loc.values.length : 0,
    minValue: loc.values.length ? Math.min(...loc.values) : 0,
    maxValue: loc.values.length ? Math.max(...loc.values) : 0 })
  \<close>
\<close>

record AggregateEntry =
  aggName :: string
  avgValue :: real
  minValue :: real
  maxValue :: real

definition summarize :: "string \<times> real list \<Rightarrow> AggregateEntry" where
  "summarize loc =
     \<lparr> aggName = fst loc,
       avgValue = (if 0 < length (snd loc)
                   then foldl (+) 0 (snd loc) / real (length (snd loc)) else 0),
       minValue = (if 0 < length (snd loc) then Min (set (snd loc)) else 0),
       maxValue = (if 0 < length (snd loc) then Max (set (snd loc)) else 0) \<rparr>"

text \<open>
  \<^verbatim>\<open>.sort((a, b) => order === "desc" ? b.avgValue - a.avgValue : a.avgValue - b.avgValue)\<close>;
  the sort of an array is stable.
\<close>

fun sortByAvg :: "SortOrder \<Rightarrow> AggregateEntry list \<Rightarrow> AggregateEntry list" where
  "sortByAvg Desc es = sort_key (\<lambda>e. - avgValue e) es"
| "sortByAvg Asc es = sort_key avgValue es"

definition aggregatedData :: "SortOrder \<Rightarrow> nat \<Rightarrow> aggregates \<Rightarrow> AggregateEntry list" where
  "aggregatedData ord limit aggs = take limit (sortByAvg ord (map summarize aggs))"

text \<open>
  \<^verbatim>\<open>
  const trendData = yearsToQuery.map((y) => {
    const point: Record<string, unknown> = { year: y };
    for (const loc of aggregatedData.slice(0, 5)) {
      point[loc.name] =
        yearlyRankings[y]?.find((r) => r.name === loc.name)?.value ?? null;
    }
    return point;
  });
  \<close>
\<close>

definition trendValue :: "(string \<times> RankingEntry list) list \<Rightarrow> string \<Rightarrow> string \<Rightarrow> jsval" where
  "trendValue rankings y n =
     (case map_of rankings y of
        None \<Rightarrow> JNull
      | Some entries \<Rightarrow>
          (case find (\<lambda>r. rankName r = n) entries of None \<Rightarrow> JNull | Some r \<Rightarrow> rankValue r))"

definition trendPoint ::
  "(string \<times> RankingEntry list) list \<Rightarrow> AggregateEntry list \<Rightarrow> string \<Rightarrow> jsobject" where
  "trendPoint rankings leading y =
     fold (\<lambda>loc point. AList.update (aggName loc) (trendValue rankings y (aggName loc)) point)
       leading [(''year'', JStr y)]"

definition trendData ::
  "(string \<times> RankingEntry list) list \<Rightarrow> AggregateEntry list \<Rightarrow> string list \<Rightarrow> jsobject list" where
  "trendData rankings aggregated years = map (trendPoint rankings (take 5 aggregated)) years"

subsection \<open>The tool\<close>

text \<open>
  The object that the tool serialises; the labels, the unit and the text summary are
  left out.
\<close>

record HistoricalRanking =
  yearsAnalyzed :: "string list"
  rankingData :: "AggregateEntry list"
  rankingTrend :: "jsobject list"

record SingleEntry =
  singleRank :: nat
  singleName :: string
  singleValue :: "jsval option"
  singleCategory :: "jsval option"
  singleStageOfExtraction :: "jsval option"
  singleRainfall :: "jsval option"
  singleRecharge :: "jsval option"
  singleExtraction :: "jsval option"

datatype ToolResult =
  Historical HistoricalRanking
| SingleYear string "SingleEntry list"
| NoDataFound

text \<open>
  \<^verbatim>\<open>
  const { isHistorical, yearsToQuery, targetYear } = await getFilteredYears(yearParams);
  if (isHistorical && yearsToQuery.length > 1) {
    ... for (const y of yearsToQuery) { ... } ...
    return JSON.stringify({ found: true, isHistorical: true, ...,
      yearsAnalyzed: yearsToQuery, data: aggregatedData, trendData, ... });
  }
  const records = await getTopLocationsByField(metric, type, order, limit, targetYear);
  if (records.length === 0) return JSON.stringify({ found: false, ... });
  const data = records.map((r, i) => { ... });
  return JSON.stringify({ found: true, ..., year: targetYear, data, ... });
  \<close>
\<close>

definition historicalRanking ::
  "Store \<Rightarrow> string \<Rightarrow> LocationType \<Rightarrow> SortOrder \<Rightarrow> nat \<Rightarrow> string list \<Rightarrow> HistoricalRanking" where
  "historicalRanking db metric t ord limit years =
     (let st = fold (rankYear db metric t ord limit) years
                 \<lparr> locationAggregates = [], yearlyRankings = [] \<rparr>;
          aggregated = aggregatedData ord limit (locationAggregates st)
      in \<lparr> yearsAnalyzed = years,
           rankingData = aggregated,
           rankingTrend = trendData (yearlyRankings st) aggregated years \<rparr>)"

definition getTopLocationsTool ::
  "Store \<Rightarrow> string list \<Rightarrow> string \<Rightarrow> LocationType \<Rightarrow> SortOrder \<Rightarrow> nat \<Rightarrow> YearFilterParams \<Rightarrow>
   ToolResult" where
  "getTopLocationsTool db availableYears metric t ord limit yearParams =
     (let filtered = getFilteredYears availableYears yearParams
      in if isHistorical filtered \<and> 1 < length (yearsToQuery filtered)
         then Historical (historicalRanking db metric t ord limit (yearsToQuery filtered))
         else
           (let records = getTopLocationsByField db metric t ord limit (targetYear filtered)
            in if length records = 0 then NoDataFound
               else SingleYear (targetYear filtered)
                 (map (\<lambda>(i, r). \<lparr> singleRank = i + 1, singleName = locName (location r),
                                 singleValue = field r (metricToField metric),
                                 singleCategory = field r ''categoryTotal'',
                                 singleStageOfExtraction = field r ''stageOfExtractionTotal'',
                                 singleRainfall = field r ''rainfallTotal'',
                                 singleRecharge = field r ''rechargeTotalTotal'',
                                 singleExtraction = field r ''draftTotalTotal'' \<rparr>)
                   (enumerate 0 records))))"

subsection \<open>The ranking over several years, as the specification words it\<close>

text \<open>
  These definitions follow the specification, not the loop of the tool; the claims
  about the tool compare its result with them. A location is identified by its name,
  which is the key the tool accumulates under.

  For a year in scope, the top \<open>k * 2\<close> locations by the metric.
\<close>

definition topPerYear ::
  "Store \<Rightarrow> string \<Rightarrow> LocationType \<Rightarrow> SortOrder \<Rightarrow> nat \<Rightarrow> string \<Rightarrow> GroundwaterRecord list" where
  "topPerYear db metric t ord k y = getTopLocationsByField db metric t ord (k * 2) y"

text \<open>The numbers that the records of the name \<open>n\<close> hold for the metric, in order.\<close>

definition numbersOf :: "string \<Rightarrow> string \<Rightarrow> GroundwaterRecord list \<Rightarrow> real list" where
  "numbersOf metric n records =
     concat (map (\<lambda>r. if locName (location r) = n
                       then (case metricValue metric r of JNum x \<Rightarrow> [x] | _ \<Rightarrow> [])
                       else []) records)"

text \<open>The values of a name across the years in scope, year by year.\<close>

definition valuesAcrossYears ::
  "Store \<Rightarrow> string \<Rightarrow> LocationType \<Rightarrow> SortOrder \<Rightarrow> nat \<Rightarrow> string list \<Rightarrow> string \<Rightarrow> real list" where
  "valuesAcrossYears db metric t ord k years n =
     concat (map (\<lambda>y. numbersOf metric n (topPerYear db metric t ord k y)) years)"

text \<open>The names that appear in the top list of some year in scope.\<close>

definition namesInScope ::
  "Store \<Rightarrow> string \<Rightarrow> LocationType \<Rightarrow> SortOrder \<Rightarrow> nat \<Rightarrow> string list \<Rightarrow> string set" where
  "namesInScope db metric t ord k years =
     (\<Union>y \<in> set years. (\<lambda>r. locName (location r)) ` set (topPerYear db metric t ord k y))"

text \<open>
  The value of a name in one year: that of its first record in the top list of the
  year, null when the name is not in the list.
\<close>

definition valueInYear ::
  "Store \<Rightarrow> string \<Rightarrow> LocationType \<Rightarrow> SortOrder \<Rightarrow> nat \<Rightarrow> string \<Rightarrow> string \<Rightarrow> jsval" where
  "valueInYear db metric t ord k y n =
     (case find (\<lambda>r. locName (location r) = n) (topPerYear db metric t ord k y) of
        None \<Rightarrow> JNull
      | Some r \<Rightarrow> metricValue metric r)"

text \<open>Average, minimum and maximum of a list of values; all zero for no value.\<close>

definition hasStatsOf :: "AggregateEntry \<Rightarrow> real list \<Rightarrow> bool" where
  "hasStatsOf e vs \<longleftrightarrow>
     avgValue e = (if vs = [] then 0 else sum_list vs / real (length vs)) \<and>
     minValue e = (if vs = [] then 0 else Min (set vs)) \<and>
     maxValue e = (if vs = [] then 0 else Max (set vs))"

section \<open>A small store for the examples\<close>

text \<open>
  Five states and one district. For 2024-2025 Bihar has no extraction figure; for
  2022-2023 only Kerala, Goa and Punjab have rows.
\<close>

definition exampleLocations :: "LocationRecord list" where
  "exampleLocations =
     [\<lparr> lrId = ''s1'', externalId = None, lrName = ''Kerala'', lrType = STATE, parentId = None \<rparr>,
      \<lparr> lrId = ''s2'', externalId = None, lrName = ''Goa'', lrType = STATE, parentId = None \<rparr>,
      \<lparr> lrId = ''s3'', externalId = None, lrName = ''Punjab'', lrType = STATE, parentId = None \<rparr>,
      \<lparr> lrId = ''s4'', externalId = None, lrName = ''Bihar'', lrType = STATE, parentId = None \<rparr>,
      \<lparr> lrId = ''s5'', externalId = None, lrName = ''Sikkim'', lrType = STATE, parentId = None \<rparr>,
      \<lparr> lrId = ''d1'', externalId = None, lrName = ''Pune'', lrType = DISTRICT,
        parentId = Some ''s1'' \<rparr>]"

definition exampleRows :: "GwRow list" where
  "exampleRows =
     [\<lparr> gwId = ''g1'', gwLocationId = ''s1'', gwYear = ''2024-2025'',
        gwFields = [(''draftTotalTotal'', JNum 10)] \<rparr>,
      \<lparr> gwId = ''g2'', gwLocationId = ''s2'', gwYear = ''2024-2025'',
        gwFields = [(''draftTotalTotal'', JNum 30)] \<rparr>,
      \<lparr> gwId = ''g3'', gwLocationId = ''s3'', gwYear = ''2024-2025'',
        gwFields = [(''draftTotalTotal'', JNum 20)] \<rparr>,
      \<lparr> gwId = ''g4'', gwLocationId = ''s4'', gwYear = ''2024-2025'',
        gwFields = [(''draftTotalTotal'', JNull)] \<rparr>,
      \<lparr> gwId = ''g5'', gwLocationId = ''s5'', gwYear = ''2024-2025'',
        gwFields = [(''draftTotalTotal'', JNum 5)] \<rparr>,
      \<lparr> gwId = ''g6'', gwLocationId = ''d1'', gwYear = ''2024-2025'',
        gwFields = [(''draftTotalTotal'', JNum 99)] \<rparr>,
      \<lparr> gwId = ''g7'', gwLocationId = ''s1'', gwYear = ''2022-2023'',
        gwFields = [(''draftTotalTotal'', JNum 50)] \<rparr>,
      \<lparr> gwId = ''g8'', gwLocationId = ''s2'', gwYear = ''2022-2023'',
        gwFields = [(''draftTotalTotal'', JNum 20)] \<rparr>,
      \<lparr> gwId = ''g9'', gwLocationId = ''s3'', gwYear = ''2022-2023'',
        gwFields = [(''draftTotalTotal'', JNum 40)] \<rparr>]"

definition exampleStore :: Store where
  "exampleStore = \<lparr> locations = exampleLocations, groundwaterData = exampleRows \<rparr>"

text \<open>
  Two districts of different states with the same name, each with a row for two years.
\<close>

definition sameNameStore :: Store where
  "sameNameStore =
     \<lparr> locations =
         [\<lparr> lrId = ''b1'', externalId = None, lrName = ''Bilaspur'', lrType = DISTRICT,
            parentId = Some ''s1'' \<rparr>,
          \<lparr> lrId = ''b2'', externalId = None, lrName = ''Bilaspur'', lrType = DISTRICT,
            parentId = Some ''s2'' \<rparr>],
       groundwaterData =
         [\<lparr> gwId = ''g1'', gwLocationId = ''b1'', gwYear = ''2022-2023'',
            gwFields = [(''draftTotalTotal'', JNum 10)] \<rparr>,
          \<lparr> gwId = ''g2'', gwLocationId = ''b2'', gwYear = ''2022-2023'',
            gwFields = [(''draftTotalTotal'', JNum 30)] \<rparr>,
          \<lparr> gwId = ''g3'', gwLocationId = ''b1'', gwYear = ''2024-2025'',
            gwFields = [(''draftTotalTotal'', JNum 10)] \<rparr>,
          \<lparr> gwId = ''g4'', gwLocationId = ''b2'', gwYear = ''2024-2025'',
            gwFields = [(''draftTotalTotal'', JNum 30)] \<rparr>] \<rparr>"

text \<open>
  One district whose figures for 2024-2025 were ingested as two rows (command and
  non-command area), and the same store with these two rows ingested a second time.
\<close>

definition splitRows :: "GwRow list" where
  "splitRows =
     [\<lparr> gwId = ''g1'', gwLocationId = ''d1'', gwYear = ''2024-2025'',
        gwFields = [(''draftTotalTotal'', JNum 10), (''stageOfExtractionTotal'', JNum 40)] \<rparr>,
      \<lparr> gwId = ''g2'', gwLocationId = ''d1'', gwYear = ''2024-2025'',
        gwFields = [(''draftTotalTotal'', JNum 15), (''stageOfExtractionTotal'', JNum 45)] \<rparr>]"

definition splitRowsStore :: Store where
  "splitRowsStore =
     \<lparr> locations =
         [\<lparr> lrId = ''d1'', externalId = None, lrName = ''Pune'', lrType = DISTRICT,
            parentId = Some ''s1'' \<rparr>],
       groundwaterData = splitRows \<rparr>"

definition splitRowsTwiceStore :: Store where
  "splitRowsTwiceStore =
     \<lparr> locations =
         [\<lparr> lrId = ''d1'', externalId = None, lrName = ''Pune'', lrType = DISTRICT,
            parentId = Some ''s1'' \<rparr>],
       groundwaterData = splitRows @ splitRows \<rparr>"

text \<open>
  An index that knows two districts called Hamirpur, of different states, and the
  state Uttar Pradesh.
\<close>

definition exampleFuse :: Fuse where
  "exampleFuse q =
     (if q = ''Hamirpur'' then
        [\<lparr> item = \<lparr> lrId = ''h1'', externalId = None, lrName = ''Hamirpur'', lrType = DISTRICT,
                    parentId = Some ''hp'' \<rparr>, score = Some 0 \<rparr>,
         \<lparr> item = \<lparr> lrId = ''h2'', externalId = None, lrName = ''Hamirpur'', lrType = DISTRICT,
                    parentId = Some ''up'' \<rparr>, score = Some 0 \<rparr>]
      else if q = ''uttar pradesh'' then
        [\<lparr> item = \<lparr> lrId = ''up'', externalId = None, lrName = ''Uttar Pradesh'', lrType = STATE,
                    parentId = Some ''in'' \<rparr>, score = Some 0 \<rparr>]
      else [])"

text \<open>
  Three states with rows for 2024-2025. The figures of the state A were ingested as
  two rows (command and non-command area); its rainfall is 23 in all, its extraction 3.
\<close>

definition rankingSplitStore :: Store where
  "rankingSplitStore =
     \<lparr> locations =
         [\<lparr> lrId = ''a'', externalId = None, lrName = ''A'', lrType = STATE, parentId = None \<rparr>,
          \<lparr> lrId = ''b'', externalId = None, lrName = ''B'', lrType = STATE, parentId = None \<rparr>,
          \<lparr> lrId = ''c'', externalId = None, lrName = ''C'', lrType = STATE, parentId = None \<rparr>],
       groundwaterData =
         [\<lparr> gwId = ''g1'', gwLocationId = ''a'', gwYear = ''2024-2025'',
            gwFields = [(''rainfallTotal'', JNum 12), (''draftTotalTotal'', JNum 1)] \<rparr>,
          \<lparr> gwId = ''g2'', gwLocationId = ''a'', gwYear = ''2024-2025'',
            gwFields = [(''rainfallTotal'', JNum 11), (''draftTotalTotal'', JNum 2)] \<rparr>,
          \<lparr> gwId = ''g3'', gwLocationId = ''b'', gwYear = ''2024-2025'',
            gwFields = [(''rainfallTotal'', JNum 20), (''draftTotalTotal'', JNum 4)] \<rparr>,
          \<lparr> gwId = ''g4'', gwLocationId = ''c'', gwYear = ''2024-2025'',
            gwFields = [(''rainfallTotal'', JNum 5), (''draftTotalTotal'', JNum 9)] \<rparr>] \<rparr>"

section \<open>Properties of the aggregator\<close>

lemma orZero_eq: "orZero v = (case v of None \<Rightarrow> 0 | Some x \<Rightarrow> x)"
  by (simp add: orZero_def split: option.splits)

lemma map_of_addEntry:
  "map_of (addEntry (k', v) a) k =
     (if k = k' \<and> isNumeric (Some v) then Some (orZero (map_of a k) + numericValue (Some v))
      else map_of a k)"
  by (cases v) (simp_all add: update_conv')

lemma map_of_fold_addEntry_absent:
  "k \<notin> fst ` set es \<Longrightarrow> map_of (fold addEntry es a) k = map_of a k"
proof (induction es arbitrary: a)
  case Nil
  show ?case by simp
next
  case (Cons e es)
  obtain k' v where e: "e = (k', v)" by (cases e)
  from Cons.prems have "k \<noteq> k'" and "k \<notin> fst ` set es" by (auto simp: e)
  with Cons.IH [of "addEntry e a"] show ?case
    by (simp add: e map_of_addEntry)
qed

lemma map_of_fold_addEntry:
  "distinct (map fst es) \<Longrightarrow>
   map_of (fold addEntry es a) k =
     (if isNumeric (map_of es k) then Some (orZero (map_of a k) + numericValue (map_of es k))
      else map_of a k)"
proof (induction es arbitrary: a)
  case Nil
  show ?case by simp
next
  case (Cons e es)
  obtain k' v where e: "e = (k', v)" by (cases e)
  from Cons.prems have d: "distinct (map fst es)" and nin: "k' \<notin> fst ` set es"
    by (auto simp: e)
  show ?case
  proof (cases "k = k'")
    case True
    with nin have "map_of es k = None"
      by (simp add: map_of_eq_None_iff)
    moreover from True nin have "map_of (fold addEntry es (addEntry e a)) k = map_of (addEntry e a) k"
      by (simp add: map_of_fold_addEntry_absent)
    ultimately show ?thesis
      using True by (simp add: e map_of_addEntry)
  next
    case False
    with Cons.IH [OF d, of "addEntry e a"] show ?thesis
      by (simp add: e map_of_addEntry)
  qed
qed

lemma map_of_addRecord:
  "wellFormed r \<Longrightarrow>
   map_of (addRecord r a) k =
     (if isNumeric (field r k) then Some (orZero (map_of a k) + numericValue (field r k))
      else map_of a k)"
  by (simp add: addRecord_def wellFormed_def field_def map_of_fold_addEntry)

lemma numericValue_not_numeric: "\<not> isNumeric v \<Longrightarrow> numericValue v = 0"
  by (induction v rule: isNumeric.induct) simp_all

lemma fieldSum_none_numeric:
  "\<forall>r \<in> set rs. \<not> isNumeric (field r k) \<Longrightarrow> fieldSum rs k = 0"
  by (induction rs) (simp_all add: fieldSum_def numericValue_not_numeric)

lemma fieldSum_Cons: "fieldSum (r # rs) k = numericValue (field r k) + fieldSum rs k"
  by (simp add: fieldSum_def)

lemma map_of_fold_addRecord:
  "\<forall>r \<in> set rs. wellFormed r \<Longrightarrow>
   map_of (fold addRecord rs a) k =
     (if \<exists>r \<in> set rs. isNumeric (field r k)
      then Some (orZero (map_of a k) + fieldSum rs k)
      else map_of a k)"
proof (induction rs arbitrary: a)
  case Nil
  show ?case by (simp add: fieldSum_def)
next
  case (Cons r rs)
  from Cons.prems have wf: "wellFormed r" and wfs: "\<forall>r \<in> set rs. wellFormed r"
    by simp_all
  note IH = Cons.IH [OF wfs, of "addRecord r a"]
  show ?case
  proof (cases "isNumeric (field r k)")
    case True
    then show ?thesis
      using IH wf
      by (simp add: map_of_addRecord fieldSum_Cons orZero_eq fieldSum_none_numeric)
  next
    case False
    then show ?thesis
      using IH wf
      by (simp add: map_of_addRecord fieldSum_Cons numericValue_not_numeric)
  qed
qed

lemma map_of_sumRecords:
  "\<forall>r \<in> set rs. wellFormed r \<Longrightarrow>
   map_of (sumRecords rs) k =
     (if \<exists>r \<in> set rs. isNumeric (field r k) then Some (fieldSum rs k) else None)"
  by (simp add: sumRecords_def map_of_fold_addRecord orZero_def)

lemma map_of_map_JNum:
  "map_of (map (\<lambda>(k, x). (k, JNum x)) a) k = map_option JNum (map_of a k)"
  by (induction a) auto

lemma map_of_mergedData_other:
  "k \<notin> categoryKeys \<Longrightarrow> map_of (mergedData a) k = map_option JNum (map_of a k)"
  by (simp add: mergedData_def categoryKeys_def update_conv' map_of_map_JNum)



lemma foldl_plus_sum_list: "foldl (+) a vs = a + sum_list (vs :: real list)"
  by (induction vs arbitrary: a) simp_all

lemma sum_list_addedValues: "sum_list (addedValues rs k) = fieldSum rs k"
proof (induction rs)
  case Nil
  show ?case by (simp add: addedValues_def fieldSum_def)
next
  case (Cons r rs)
  have "sum_list (case field r k of Some (JNum v) \<Rightarrow> [v] | _ \<Rightarrow> []) = numericValue (field r k)"
    by (cases "field r k" rule: isNumeric.cases) simp_all
  with Cons show ?case
    by (simp add: addedValues_def fieldSum_def)
qed

lemma runningSum_fieldSum: "runningSum rs k = fieldSum rs k"
  by (simp add: runningSum_def foldl_plus_sum_list sum_list_addedValues)

lemma addedValues_append: "addedValues (xs @ ys) k = addedValues xs k @ addedValues ys k"
  by (simp add: addedValues_def)

section \<open>The aggregator: claims\<close>



text \<open>
  C2. The category is a four-way thresholding of the stage of extraction: a stage
  other than zero and below 70 is Safe, from 70 and below 90 Semi-Critical, from 90 and
  below 100 Critical, 100 or more Over-Exploited; a stage that is zero or absent is
  Unknown, and so never Safe.
\<close>

theorem determineCategoryFromStage_thresholds:
  "(s \<noteq> 0 \<and> s < 70 \<longrightarrow> determineCategoryFromStage (Some s) = ''Safe'') \<and>
   (70 \<le> s \<and> s < 90 \<longrightarrow> determineCategoryFromStage (Some s) = ''Semi-Critical'') \<and>
   (90 \<le> s \<and> s < 100 \<longrightarrow> determineCategoryFromStage (Some s) = ''Critical'') \<and>
   (100 \<le> s \<longrightarrow> determineCategoryFromStage (Some s) = ''Over-Exploited'') \<and>
   determineCategoryFromStage (Some 0) = ''Unknown'' \<and>
   determineCategoryFromStage None = ''Unknown'' \<and>
   determineCategoryFromStage (Some 0) \<noteq> ''Safe'' \<and>
   determineCategoryFromStage None \<noteq> ''Safe''"
  by (simp add: determineCategoryFromStage_def)

theorem determineCategoryFromStage_thresholds_witness:
  "determineCategoryFromStage (Some 50) = ''Safe'' \<and>
   determineCategoryFromStage (Some 85) = ''Semi-Critical'' \<and>
   determineCategoryFromStage (Some 95) = ''Critical'' \<and>
   determineCategoryFromStage (Some 105) = ''Over-Exploited''"
  using determineCategoryFromStage_thresholds [of 50]
    determineCategoryFromStage_thresholds [of 85]
    determineCategoryFromStage_thresholds [of 95]
    determineCategoryFromStage_thresholds [of 105]
  by simp

lemma aggregate_many:
  "2 \<le> length rs \<Longrightarrow>
   aggregateGroundwaterRecords rs =
     Some \<lparr> location = location (hd rs), year = year (hd rs),
            data = mergedData (sumRecords rs) \<rparr>"
  by (cases rs; cases "tl rs") auto

lemma field_aggregated:
  assumes "\<forall>r \<in> set rs. wellFormed r" and "k \<notin> categoryKeys"
  shows "field \<lparr> location = l, year = y, data = mergedData (sumRecords rs) \<rparr> k =
    (if \<exists>r \<in> set rs. isNumeric (field r k) then Some (JNum (fieldSum rs k)) else None)"
  using assms by (simp add: field_def map_of_mergedData_other map_of_sumRecords)

text \<open>
  C7, as stated, fails: feeding the same two raw rows twice gives another record (the
  sum 50 in place of 25), in the aggregator and in the canonical record read from a
  store that holds the rows twice.
\<close>

theorem aggregate_rows_twice_differs:
  "aggregateGroundwaterRecords
     ([\<lparr> location = \<lparr> locId = ''d1'', locName = ''Pune'', locType = DISTRICT \<rparr>,
         year = ''2024-2025'', data = [(''draftTotalTotal'', JNum 10)] \<rparr>,
       \<lparr> location = \<lparr> locId = ''d1'', locName = ''Pune'', locType = DISTRICT \<rparr>,
         year = ''2024-2025'', data = [(''draftTotalTotal'', JNum 15)] \<rparr>] @
      [\<lparr> location = \<lparr> locId = ''d1'', locName = ''Pune'', locType = DISTRICT \<rparr>,
         year = ''2024-2025'', data = [(''draftTotalTotal'', JNum 10)] \<rparr>,
       \<lparr> location = \<lparr> locId = ''d1'', locName = ''Pune'', locType = DISTRICT \<rparr>,
         year = ''2024-2025'', data = [(''draftTotalTotal'', JNum 15)] \<rparr>])
   \<noteq> aggregateGroundwaterRecords
     [\<lparr> location = \<lparr> locId = ''d1'', locName = ''Pune'', locType = DISTRICT \<rparr>,
        year = ''2024-2025'', data = [(''draftTotalTotal'', JNum 10)] \<rparr>,
      \<lparr> location = \<lparr> locId = ''d1'', locName = ''Pune'', locType = DISTRICT \<rparr>,
        year = ''2024-2025'', data = [(''draftTotalTotal'', JNum 15)] \<rparr>] \<and>
   getGroundwaterDataByLocationId splitRowsTwiceStore ''d1'' ''2024-2025'' \<noteq>
   getGroundwaterDataByLocationId splitRowsStore ''d1'' ''2024-2025''"
  by (simp add: sumRecords_def addRecord_def mergedData_def orZero_def
      getGroundwaterDataByLocationId_def innerJoin_def splitRowsStore_def
      splitRowsTwiceStore_def splitRows_def toRecord_def rowObject_def)

text \<open>
  C7, amended. For two or more raw rows (each an object, with every key once) the
  canonical record, aggregated again on its own, is returned unchanged, so merged
  output fed back alone is not counted again. The aggregator removes no duplicates:
  when the same raw rows are fed twice in one call, the same fields are present, the
  values added under a field are the values of the rows followed by the same values
  once more, and the field is the sum accumulated over all of them, as the field of
  the canonical record is the sum accumulated over the values of the rows.
\<close>

theorem aggregate_again_unchanged_twice_added_twice:
  assumes "2 \<le> length rs" and "\<forall>r \<in> set rs. wellFormed r"
  shows "\<exists>m m2. aggregateGroundwaterRecords rs = Some m \<and>
    aggregateGroundwaterRecords [m] = Some m \<and>
    aggregateGroundwaterRecords (rs @ rs) = Some m2 \<and>
    (\<forall>k. k \<notin> categoryKeys \<longrightarrow>
       isNumeric (field m2 k) = isNumeric (field m k) \<and>
       addedValues (rs @ rs) k = addedValues rs k @ addedValues rs k \<and>
       (isNumeric (field m k) \<longrightarrow>
          field m k = Some (JNum (runningSum rs k)) \<and>
          field m2 k = Some (JNum (runningSum (rs @ rs) k))))"
proof -
  let ?m = "\<lparr> location = location (hd rs), year = year (hd rs),
              data = mergedData (sumRecords rs) \<rparr>"
  let ?m2 = "\<lparr> location = location (hd (rs @ rs)), year = year (hd (rs @ rs)),
               data = mergedData (sumRecords (rs @ rs)) \<rparr>"
  from assms(1) have once: "aggregateGroundwaterRecords rs = Some ?m"
    by (rule aggregate_many)
  from assms(1) have "2 \<le> length (rs @ rs)"
    by simp
  then have twice: "aggregateGroundwaterRecords (rs @ rs) = Some ?m2"
    by (rule aggregate_many)
  from assms(2) have wf2: "\<forall>r \<in> set (rs @ rs). wellFormed r"
    by simp
  have "isNumeric (field ?m2 k) = isNumeric (field ?m k) \<and>
      addedValues (rs @ rs) k = addedValues rs k @ addedValues rs k \<and>
      (isNumeric (field ?m k) \<longrightarrow>
         field ?m k = Some (JNum (runningSum rs k)) \<and>
         field ?m2 k = Some (JNum (runningSum (rs @ rs) k)))" if "k \<notin> categoryKeys" for k
    by (simp add: field_aggregated [OF assms(2) that] field_aggregated [OF wf2 that]
        addedValues_append runningSum_fieldSum)
  with once twice show ?thesis
    by (intro exI [of _ ?m] exI [of _ ?m2]) simp
qed

theorem aggregate_again_unchanged_twice_added_twice_witness:
  "\<exists>m m2. aggregateGroundwaterRecords
       [\<lparr> location = \<lparr> locId = ''d1'', locName = ''Pune'', locType = DISTRICT \<rparr>,
          year = ''2024-2025'', data = [(''draftTotalTotal'', JNum 10)] \<rparr>,
        \<lparr> location = \<lparr> locId = ''d1'', locName = ''Pune'', locType = DISTRICT \<rparr>,
          year = ''2024-2025'', data = [(''draftTotalTotal'', JNum 15)] \<rparr>] = Some m \<and>
     aggregateGroundwaterRecords [m] = Some m \<and>
     aggregateGroundwaterRecords
       ([\<lparr> location = \<lparr> locId = ''d1'', locName = ''Pune'', locType = DISTRICT \<rparr>,
           year = ''2024-2025'', data = [(''draftTotalTotal'', JNum 10)] \<rparr>,
         \<lparr> location = \<lparr> locId = ''d1'', locName = ''Pune'', locType = DISTRICT \<rparr>,
           year = ''2024-2025'', data = [(''draftTotalTotal'', JNum 15)] \<rparr>] @
        [\<lparr> location = \<lparr> locId = ''d1'', locName = ''Pune'', locType = DISTRICT \<rparr>,
           year = ''2024-2025'', data = [(''draftTotalTotal'', JNum 10)] \<rparr>,
         \<lparr> location = \<lparr> locId = ''d1'', locName = ''Pune'', locType = DISTRICT \<rparr>,
           year = ''2024-2025'', data = [(''draftTotalTotal'', JNum 15)] \<rparr>]) = Some m2 \<and>
     field m ''draftTotalTotal'' = Some (JNum 25) \<and>
     field m2 ''draftTotalTotal'' = Some (JNum 50)"
  using aggregate_again_unchanged_twice_added_twice
    [of "[\<lparr> location = \<lparr> locId = ''d1'', locName = ''Pune'', locType = DISTRICT \<rparr>,
            year = ''2024-2025'', data = [(''draftTotalTotal'', JNum 10)] \<rparr>,
          \<lparr> location = \<lparr> locId = ''d1'', locName = ''Pune'', locType = DISTRICT \<rparr>,
            year = ''2024-2025'', data = [(''draftTotalTotal'', JNum 15)] \<rparr>]"]
  by (simp add: wellFormed_def field_def sumRecords_def addRecord_def mergedData_def
      orZero_def)

section \<open>Year filtering: claims\<close>

lemma inRange_both:
  "f \<noteq> [] \<Longrightarrow> t \<noteq> [] \<Longrightarrow> inRange (Some f) (Some t) = (\<lambda>y. f \<le> y \<and> y \<le> t)"
  by (simp add: inRange_def fun_eq_iff)

lemma inRange_from:
  "f \<noteq> [] \<Longrightarrow> \<not> truthy to \<Longrightarrow> inRange (Some f) to = (\<lambda>y. f \<le> y)"
  by (simp add: inRange_def fun_eq_iff)

lemma inRange_to:
  "t \<noteq> [] \<Longrightarrow> \<not> truthy from \<Longrightarrow> inRange from (Some t) = (\<lambda>y. y \<le> t)"
  by (simp add: inRange_def fun_eq_iff)

lemma yearsToQuery_list:
  "specificYears p = Some ys \<Longrightarrow> ys \<noteq> [] \<Longrightarrow>
   yearsToQuery (getFilteredYears avail p) = filter (\<lambda>y. y \<in> set ys) avail"
  by (simp add: getFilteredYears_def Let_def)

lemma yearsToQuery_range:
  "\<not> listGiven (specificYears p) \<Longrightarrow> truthy (fromYear p) \<or> truthy (toYear p) \<Longrightarrow>
   yearsToQuery (getFilteredYears avail p) = filter (inRange (fromYear p) (toYear p)) avail"
  by (auto simp add: getFilteredYears_def Let_def)

lemma isHistorical_iff:
  "isHistorical (getFilteredYears avail p) \<longleftrightarrow>
     truthy (fromYear p) \<or> truthy (toYear p) \<or> specificYears p \<noteq> None"
  by (simp add: getFilteredYears_def Let_def)

text \<open>
  C3, as stated, fails for an explicit list that is empty: the years are then not the
  intersection of the available years with the list (which is empty).
\<close>

theorem getFilteredYears_empty_list_not_intersection:
  "set (yearsToQuery (getFilteredYears [''2020-2021'']
      \<lparr> yearParam = None, fromYear = None, toYear = None, specificYears = Some [] \<rparr>))
   \<noteq> set [''2020-2021''] \<inter> set []"
  by (simp add: getFilteredYears_def Let_def)

text \<open>
  C3, amended. The resolver is a total function: no specification makes it fail.
  When an explicit list with at least one year is given, the years are the available
  years that occur in the list, in the order of the available years, whatever range is
  given beside it. When no such list is given and a range bound is given (a non-empty
  string), the years are the available years within the bounds that are given,
  inclusively; a range with one bound is valid. The historical flag is true exactly
  when a bound is given or a list is supplied (the empty list too), however many years
  remain.
\<close>

theorem getFilteredYears_list_then_range:
  "(specificYears p = Some ys \<and> ys \<noteq> [] \<longrightarrow>
      yearsToQuery (getFilteredYears avail p) = filter (\<lambda>y. y \<in> set ys) avail \<and>
      set (yearsToQuery (getFilteredYears avail p)) = set avail \<inter> set ys) \<and>
   (\<not> listGiven (specificYears p) \<and> fromYear p = Some f \<and> f \<noteq> [] \<and>
    toYear p = Some t \<and> t \<noteq> [] \<longrightarrow>
      yearsToQuery (getFilteredYears avail p) = filter (\<lambda>y. f \<le> y \<and> y \<le> t) avail) \<and>
   (\<not> listGiven (specificYears p) \<and> fromYear p = Some f \<and> f \<noteq> [] \<and>
    \<not> truthy (toYear p) \<longrightarrow>
      yearsToQuery (getFilteredYears avail p) = filter (\<lambda>y. f \<le> y) avail) \<and>
   (\<not> listGiven (specificYears p) \<and> \<not> truthy (fromYear p) \<and>
    toYear p = Some t \<and> t \<noteq> [] \<longrightarrow>
      yearsToQuery (getFilteredYears avail p) = filter (\<lambda>y. y \<le> t) avail) \<and>
   (isHistorical (getFilteredYears avail p) \<longleftrightarrow>
      truthy (fromYear p) \<or> truthy (toYear p) \<or> specificYears p \<noteq> None)"
proof -
  have list: "yearsToQuery (getFilteredYears avail p) = filter (\<lambda>y. y \<in> set ys) avail \<and>
      set (yearsToQuery (getFilteredYears avail p)) = set avail \<inter> set ys"
    if "specificYears p = Some ys" "ys \<noteq> []"
    using that by (auto simp add: yearsToQuery_list)
  have both: "yearsToQuery (getFilteredYears avail p) = filter (\<lambda>y. f \<le> y \<and> y \<le> t) avail"
    if "\<not> listGiven (specificYears p)" "fromYear p = Some f" "f \<noteq> []"
      "toYear p = Some t" "t \<noteq> []"
    using that by (simp add: yearsToQuery_range inRange_both)
  have lower: "yearsToQuery (getFilteredYears avail p) = filter (\<lambda>y. f \<le> y) avail"
    if "\<not> listGiven (specificYears p)" "fromYear p = Some f" "f \<noteq> []" "\<not> truthy (toYear p)"
    using that by (simp add: yearsToQuery_range inRange_from)
  have upper: "yearsToQuery (getFilteredYears avail p) = filter (\<lambda>y. y \<le> t) avail"
    if "\<not> listGiven (specificYears p)" "\<not> truthy (fromYear p)" "toYear p = Some t" "t \<noteq> []"
    using that by (simp add: yearsToQuery_range inRange_to)
  from list both lower upper isHistorical_iff [of avail p] show ?thesis
    by blast
qed

theorem getFilteredYears_list_then_range_witness:
  "yearsToQuery (getFilteredYears [''2016-2017'', ''2018-2019'', ''2024-2025'']
      \<lparr> yearParam = None, fromYear = Some ''2024-2025'', toYear = None,
        specificYears = Some [''2018-2019'', ''2030-2031''] \<rparr>) = [''2018-2019''] \<and>
   yearsToQuery (getFilteredYears [''2016-2017'', ''2018-2019'', ''2024-2025'']
      \<lparr> yearParam = None, fromYear = Some ''2016-2017'', toYear = Some ''2020-2021'',
        specificYears = None \<rparr>) = [''2016-2017'', ''2018-2019''] \<and>
   yearsToQuery (getFilteredYears [''2016-2017'', ''2018-2019'', ''2024-2025'']
      \<lparr> yearParam = None, fromYear = Some ''2018-2019'', toYear = None,
        specificYears = None \<rparr>) = [''2018-2019'', ''2024-2025''] \<and>
   yearsToQuery (getFilteredYears [''2016-2017'', ''2018-2019'', ''2024-2025'']
      \<lparr> yearParam = None, fromYear = None, toYear = Some ''2016-2017'',
        specificYears = None \<rparr>) = [''2016-2017''] \<and>
   isHistorical (getFilteredYears [''2016-2017'', ''2018-2019'', ''2024-2025'']
      \<lparr> yearParam = None, fromYear = None, toYear = Some ''2016-2017'',
        specificYears = None \<rparr>)"
  using
    getFilteredYears_list_then_range
      [of "\<lparr> yearParam = None, fromYear = Some ''2024-2025'', toYear = None,
             specificYears = Some [''2018-2019'', ''2030-2031''] \<rparr>"
          "[''2018-2019'', ''2030-2031'']" "[''2016-2017'', ''2018-2019'', ''2024-2025'']"
          "''2024-2025''" "''''"]
    getFilteredYears_list_then_range
      [of "\<lparr> yearParam = None, fromYear = Some ''2016-2017'', toYear = Some ''2020-2021'',
             specificYears = None \<rparr>"
          "[]" "[''2016-2017'', ''2018-2019'', ''2024-2025'']"
          "''2016-2017''" "''2020-2021''"]
    getFilteredYears_list_then_range
      [of "\<lparr> yearParam = None, fromYear = Some ''2018-2019'', toYear = None,
             specificYears = None \<rparr>"
          "[]" "[''2016-2017'', ''2018-2019'', ''2024-2025'']"
          "''2018-2019''" "''''"]
    getFilteredYears_list_then_range
      [of "\<lparr> yearParam = None, fromYear = None, toYear = Some ''2016-2017'',
             specificYears = None \<rparr>"
          "[]" "[''2016-2017'', ''2018-2019'', ''2024-2025'']"
          "''''" "''2016-2017''"]
  by simp

text \<open>
  C8, as stated, fails: with no year, range or list the target year is the constant
  \<^verbatim>\<open>"2024-2025"\<close>, not the most recent of the available years.
\<close>

theorem getFilteredYears_default_not_most_recent:
  "targetYear (getFilteredYears [''2016-2017'', ''2022-2023'']
      \<lparr> yearParam = None, fromYear = None, toYear = None, specificYears = None \<rparr>)
   \<noteq> last [''2016-2017'', ''2022-2023'']"
  by (simp add: getFilteredYears_def Let_def)

text \<open>
  C8, amended. When the specification holds no year, no range bound and no list, the
  resolver returns historical = false and years = [targetYear], where targetYear is
  the fixed default year 2024-2025 (the constant \<open>LATEST_YEAR\<close> of the service), whatever
  the available years are.
\<close>

theorem getFilteredYears_default_year:
  assumes "\<not> truthy (yearParam p)" and "\<not> truthy (fromYear p)" and "\<not> truthy (toYear p)"
    and "specificYears p = None"
  shows "getFilteredYears avail p =
    \<lparr> isHistorical = False, yearsToQuery = [''2024-2025''], targetYear = ''2024-2025'' \<rparr> \<and>
    targetYear (getFilteredYears avail p) = LATEST_YEAR"
proof -
  from assms(1) have "orElse (yearParam p) ''2024-2025'' = ''2024-2025''"
    by (cases "yearParam p") simp_all
  with assms(2-4) show ?thesis
    by (simp add: getFilteredYears_def LATEST_YEAR_def Let_def)
qed

theorem getFilteredYears_default_year_witness:
  "getFilteredYears [''2016-2017'', ''2022-2023'']
      \<lparr> yearParam = None, fromYear = None, toYear = None, specificYears = None \<rparr> =
    \<lparr> isHistorical = False, yearsToQuery = [''2024-2025''], targetYear = ''2024-2025'' \<rparr>"
  using getFilteredYears_default_year
    [of "\<lparr> yearParam = None, fromYear = None, toYear = None, specificYears = None \<rparr>"
        "[''2016-2017'', ''2022-2023'']"]
  by simp

text \<open>
  C10, as stated, fails when a range bound stands beside the empty list: the range
  filter is then applied, and the years are not all the available years.
\<close>

theorem getFilteredYears_empty_list_with_range:
  "yearsToQuery (getFilteredYears [''2016-2017'', ''2020-2021'']
      \<lparr> yearParam = None, fromYear = Some ''2020-2021'', toYear = None,
        specificYears = Some [] \<rparr>)
   \<noteq> [''2016-2017'', ''2020-2021'']"
  by (simp add: getFilteredYears_def inRange_def Let_def)

text \<open>
  C10, amended. When the explicit list is present but empty, the resolver is in
  historical mode and the list filters nothing: with no range bound given, the years
  are all the available years (and \<open>filterRecordsByYear\<close> keeps every record); with a
  range bound given, the range filter applies as if no list were there.
\<close>

theorem getFilteredYears_empty_list:
  assumes "specificYears p = Some []"
  shows "isHistorical (getFilteredYears avail p) \<and>
    (\<not> truthy (fromYear p) \<and> \<not> truthy (toYear p) \<longrightarrow>
       yearsToQuery (getFilteredYears avail p) = avail \<and>
       filterRecordsByYear yearOf records p = records) \<and>
    (truthy (fromYear p) \<or> truthy (toYear p) \<longrightarrow>
       yearsToQuery (getFilteredYears avail p) =
         filter (inRange (fromYear p) (toYear p)) avail)"
  using assms by (auto simp add: getFilteredYears_def filterRecordsByYear_def Let_def)

theorem getFilteredYears_empty_list_witness:
  "isHistorical (getFilteredYears [''2016-2017'', ''2020-2021'']
      \<lparr> yearParam = None, fromYear = None, toYear = None, specificYears = Some [] \<rparr>) \<and>
   yearsToQuery (getFilteredYears [''2016-2017'', ''2020-2021'']
      \<lparr> yearParam = None, fromYear = None, toYear = None, specificYears = Some [] \<rparr>) =
     [''2016-2017'', ''2020-2021''] \<and>
   yearsToQuery (getFilteredYears [''2016-2017'', ''2020-2021'']
      \<lparr> yearParam = None, fromYear = Some ''2020-2021'', toYear = None,
        specificYears = Some [] \<rparr>) = [''2020-2021'']"
  using
    getFilteredYears_empty_list
      [of "\<lparr> yearParam = None, fromYear = None, toYear = None, specificYears = Some [] \<rparr>"
          "[''2016-2017'', ''2020-2021'']" id "[]"]
    getFilteredYears_empty_list
      [of "\<lparr> yearParam = None, fromYear = Some ''2020-2021'', toYear = None,
             specificYears = Some [] \<rparr>"
          "[''2016-2017'', ''2020-2021'']" id "[]"]
  by (simp add: inRange_def)

section \<open>Location search: claims\<close>




lemma narrowByParent_eq:
  "narrowByParent search p parentType filtered =
     (if filter (\<lambda>r. parentIdOrEmpty r \<in> set (matchingParentIds search p parentType)) filtered = []
      then filtered
      else filter (\<lambda>r. parentIdOrEmpty r \<in> set (matchingParentIds search p parentType)) filtered)"
  by (auto simp add: narrowByParent_def Let_def)

lemma searchLocation_hint:
  assumes "t = DISTRICT \<or> t = TALUK" and "p \<noteq> []"
  shows "searchLocation (Some search) q (Some t) (Some p) =
    Inr (map toSearchResult (take 5
      (narrowByParent search p (if t = DISTRICT then STATE else DISTRICT)
        (filter (\<lambda>r. lrType (item r) = t) (search (trim (replaceSeparators q)))))))"
  using assms by (auto simp add: searchLocation_def Let_def)

text \<open>
  C4. With a parent name hint (a non-empty string) and the type DISTRICT or TALUK, the
  hint is searched on its own, the ids of its first three results of the parent level
  (STATE for DISTRICT, DISTRICT for TALUK) are taken, and the results of the requested
  type are filtered to those whose parent id is among them; when nothing would remain,
  the unfiltered results are kept. The first five are returned. So a hint never turns a
  non-empty result into an empty one.
\<close>

theorem searchLocation_parent_hint_advisory:
  assumes "t = DISTRICT \<or> t = TALUK" and "p \<noteq> []"
  shows
    "matchingParentIds search p (if t = DISTRICT then STATE else DISTRICT) =
       map (\<lambda>r. lrId (item r))
         (take 3 (filter (\<lambda>r. lrType (item r) = (if t = DISTRICT then STATE else DISTRICT))
           (search (toLowerCase (trim (replaceSeparators p)))))) \<and>
     searchLocation (Some search) q (Some t) (Some p) =
       Inr (map toSearchResult (take 5
         (if filter (\<lambda>r. parentIdOrEmpty r \<in>
                 set (matchingParentIds search p (if t = DISTRICT then STATE else DISTRICT)))
               (filter (\<lambda>r. lrType (item r) = t) (search (trim (replaceSeparators q)))) = []
          then filter (\<lambda>r. lrType (item r) = t) (search (trim (replaceSeparators q)))
          else filter (\<lambda>r. parentIdOrEmpty r \<in>
                 set (matchingParentIds search p (if t = DISTRICT then STATE else DISTRICT)))
               (filter (\<lambda>r. lrType (item r) = t) (search (trim (replaceSeparators q))))))) \<and>
     (filter (\<lambda>r. lrType (item r) = t) (search (trim (replaceSeparators q))) \<noteq> [] \<longrightarrow>
        searchLocation (Some search) q (Some t) (Some p) \<noteq> Inr [])"
proof -
  let ?parent = "if t = DISTRICT then STATE else DISTRICT"
  let ?children = "filter (\<lambda>r. lrType (item r) = t) (search (trim (replaceSeparators q)))"
  let ?narrowed = "filter (\<lambda>r. parentIdOrEmpty r \<in> set (matchingParentIds search p ?parent)) ?children"
  have ids: "matchingParentIds search p ?parent =
      map (\<lambda>r. lrId (item r))
        (take 3 (filter (\<lambda>r. lrType (item r) = ?parent)
          (search (toLowerCase (trim (replaceSeparators p))))))"
    by (simp add: matchingParentIds_def Let_def)
  have res: "searchLocation (Some search) q (Some t) (Some p) =
      Inr (map toSearchResult (take 5 (if ?narrowed = [] then ?children else ?narrowed)))"
    by (simp only: searchLocation_hint [OF assms] narrowByParent_eq)
  have "searchLocation (Some search) q (Some t) (Some p) \<noteq> Inr []" if "?children \<noteq> []"
  proof (cases "?narrowed = []")
    case True
    with res that show ?thesis by simp
  next
    case False
    with res show ?thesis by simp
  qed
  with ids res show ?thesis
    by blast
qed

theorem searchLocation_parent_hint_advisory_witness:
  "searchLocation (Some exampleFuse) ''Hamirpur'' (Some DISTRICT) (Some ''Nowhere'') =
     Inr [\<lparr> resultLocation = \<lparr> lrId = ''h1'', externalId = None, lrName = ''Hamirpur'',
                                lrType = DISTRICT, parentId = Some ''hp'' \<rparr>,
            resultScore = 1 \<rparr>,
          \<lparr> resultLocation = \<lparr> lrId = ''h2'', externalId = None, lrName = ''Hamirpur'',
                                lrType = DISTRICT, parentId = Some ''up'' \<rparr>,
            resultScore = 1 \<rparr>] \<and>
   searchLocation (Some exampleFuse) ''Hamirpur'' (Some DISTRICT) (Some ''Uttar_Pradesh'') =
     Inr [\<lparr> resultLocation = \<lparr> lrId = ''h2'', externalId = None, lrName = ''Hamirpur'',
                                lrType = DISTRICT, parentId = Some ''up'' \<rparr>,
            resultScore = 1 \<rparr>]"
  using
    searchLocation_parent_hint_advisory [of DISTRICT "''Nowhere''" exampleFuse "''Hamirpur''"]
    searchLocation_parent_hint_advisory [of DISTRICT "''Uttar_Pradesh''" exampleFuse "''Hamirpur''"]
  by (simp add: trim_def replaceSeparators_def isWhiteSpace_def toLowerCase_def lowerChar_def
      matchingParentIds_def toSearchResult_def parentIdOrEmpty_def exampleFuse_def)




section \<open>Queries on the store: ranking by a field\<close>

lemma map_sort_key: "map f (sort_key f xs) = sort (map f xs)"
  by (rule properties_for_sort [symmetric]) simp_all

lemma sorted_rev_map_uminus:
  fixes xs :: "real list"
  shows "sorted (rev (map uminus xs)) = sorted xs"
  by (simp add: sorted_wrt_rev sorted_wrt_map)

lemma map_uminus_sort:
  fixes zs :: "real list"
  shows "map uminus (sort (map uminus zs)) = rev (sort zs)"
proof -
  have "sort zs = rev (map uminus (sort (map uminus zs)))"
  proof (rule properties_for_sort)
    show "mset (rev (map uminus (sort (map uminus zs)))) = mset zs"
      by (simp add: multiset.map_comp comp_def)
    show "sorted (rev (map uminus (sort (map uminus zs))))"
      by (simp only: sorted_rev_map_uminus sorted_sort)
  qed
  then show ?thesis
    by simp
qed

lemma map_sort_key_uminus:
  fixes f :: "'a \<Rightarrow> real"
  shows "map f (sort_key (\<lambda>x. - f x) xs) = rev (sort (map f xs))"
proof -
  have "map f (sort_key (\<lambda>x. - f x) xs) = map uminus (map (\<lambda>x. - f x) (sort_key (\<lambda>x. - f x) xs))"
    by (simp add: comp_def)
  also have "\<dots> = map uminus (sort (map uminus (map f xs)))"
    by (simp only: map_sort_key) (simp add: comp_def)
  also have "\<dots> = rev (sort (map f xs))"
    by (rule map_uminus_sort)
  finally show ?thesis .
qed

lemma columnFields_not_row_key:
  "map_of columnFields c = Some key \<Longrightarrow>
   key \<noteq> ''id'' \<and> key \<noteq> ''locationId'' \<and> key \<noteq> ''year'' \<and> key \<notin> categoryKeys"
  by (auto simp add: columnFields_def categoryKeys_def split: if_splits)

lemma field_toRecord:
  "map_of columnFields c = Some key \<Longrightarrow>
   field (toRecord row) key = map_of (gwFields (fst row)) key"
  by (drule columnFields_not_row_key) (simp add: field_def toRecord_def rowObject_def)

lemma columnValue_key:
  "map_of columnFields c = Some key \<Longrightarrow>
   columnValue g c = (if isNumeric (map_of (gwFields g) key)
                      then Some (numericValue (map_of (gwFields g) key)) else None)"
  by (cases "map_of (gwFields g) key" rule: isNumeric.cases) (simp_all add: columnValue_def)

lemma sortValue_key:
  "map_of columnFields c = Some key \<Longrightarrow>
   sortValue c row = numericValue (field (toRecord row) key)"
  by (simp add: sortValue_def columnValue_key field_toRecord numericValue_not_numeric)

lemma fieldToColumn_has_key:
  "fieldToColumn f = Some c \<Longrightarrow> \<exists>key. map_of columnFields c = Some key"
  by (auto simp add: fieldToColumn_def fieldMap_def columnFields_def split: if_splits)

lemma qualifying_key:
  "map_of columnFields c = Some key \<Longrightarrow>
   qualifying db c t y =
     filter (\<lambda>row. lrType (snd row) = t \<and> gwYear (fst row) = y \<and>
                   isNumeric (map_of (gwFields (fst row)) key)) (innerJoin db)"
  by (auto simp add: qualifying_def columnValue_key intro!: filter_cong)

lemma set_take_orderBy: "set (take k (orderBy ord c rows)) \<subseteq> set rows"
proof -
  have "set (take k (orderBy ord c rows)) \<subseteq> set (orderBy ord c rows)"
    by (rule set_take_subset)
  then show ?thesis
    by (cases ord) simp_all
qed

lemma length_orderBy: "length (orderBy ord c rows) = length rows"
  by (cases ord) simp_all

lemma fieldToColumn_table:
  "map fieldToColumn
     [''rainfall'', ''recharge'', ''extraction'', ''draft'', ''extractable'', ''stage'',
      ''stage_of_extraction'', ''loss'', ''availability'', ''irrigation_extraction'',
      ''domestic_extraction'', ''industrial_extraction'', ''recharge_from_rainfall'',
      ''net_balance''] =
     [Some ''rainfall_total'', Some ''recharge_total_total'', Some ''draft_total_total'',
      Some ''draft_total_total'', Some ''extractable_total'', Some ''stage_of_extraction_total'',
      Some ''stage_of_extraction_total'', Some ''loss_total'', Some ''availability_future_total'',
      Some ''draft_agriculture_total'', Some ''draft_domestic_total'',
      Some ''draft_industry_total'', Some ''recharge_rainfall_total'', None]"
  by (simp add: fieldToColumn_def fieldMap_def toLowerCase_def lowerChar_def)

text \<open>
  What the query ranks are the joined rows, one entry for each row. When the field
  names a column (with the key \<open>key\<close> in the row object), the result holds \<open>min k n\<close>
  records, \<open>n\<close> being the number of joined rows of the given type and year that hold a
  number in the field: rows without it are left out, not ranked as zero. Every record
  of the result is such a row, and the values of the result are the first \<open>k\<close> of the
  values of these rows sorted in the requested order (descending: highest first).
\<close>

lemma getTopLocationsByField_rows:
  assumes "fieldToColumn f = Some c" and "map_of columnFields c = Some key"
  shows
    "length (getTopLocationsByField db f t ord k y) =
       min k (length (filter (\<lambda>row. lrType (snd row) = t \<and> gwYear (fst row) = y \<and>
                                    isNumeric (map_of (gwFields (fst row)) key)) (innerJoin db))) \<and>
     (\<forall>r \<in> set (getTopLocationsByField db f t ord k y).
        r \<in> toRecord ` set (innerJoin db) \<and>
        locType (location r) = t \<and> year r = y \<and> isNumeric (field r key)) \<and>
     (ord = Desc \<longrightarrow>
        map (\<lambda>r. numericValue (field r key)) (getTopLocationsByField db f t ord k y) =
          take k (rev (sort (map (\<lambda>row. numericValue (map_of (gwFields (fst row)) key))
            (filter (\<lambda>row. lrType (snd row) = t \<and> gwYear (fst row) = y \<and>
                          isNumeric (map_of (gwFields (fst row)) key)) (innerJoin db))))) \<and>
        sorted (rev (map (\<lambda>r. numericValue (field r key)) (getTopLocationsByField db f t ord k y)))) \<and>
     (ord = Asc \<longrightarrow>
        map (\<lambda>r. numericValue (field r key)) (getTopLocationsByField db f t ord k y) =
          take k (sort (map (\<lambda>row. numericValue (map_of (gwFields (fst row)) key))
            (filter (\<lambda>row. lrType (snd row) = t \<and> gwYear (fst row) = y \<and>
                          isNumeric (map_of (gwFields (fst row)) key)) (innerJoin db)))) \<and>
        sorted (map (\<lambda>r. numericValue (field r key)) (getTopLocationsByField db f t ord k y)))"
proof -
  let ?Q = "filter (\<lambda>row. lrType (snd row) = t \<and> gwYear (fst row) = y \<and>
                          isNumeric (map_of (gwFields (fst row)) key)) (innerJoin db)"
  let ?v = "\<lambda>r. numericValue (field r key)"
  let ?w = "\<lambda>row. numericValue (map_of (gwFields (fst row)) key)"
  have top: "getTopLocationsByField db f t ord k y = map toRecord (take k (orderBy ord c ?Q))"
    using assms by (simp add: getTopLocationsByField_def qualifying_key)
  have vw: "?v (toRecord row) = ?w row" for row
    using assms(2) by (simp add: field_toRecord)
  have sv: "sortValue c = ?w"
    using assms(2) by (simp add: fun_eq_iff sortValue_key field_toRecord)
  have len: "length (getTopLocationsByField db f t ord k y) = min k (length ?Q)"
    by (simp add: top length_orderBy min.commute)
  have mem: "r \<in> toRecord ` set (innerJoin db) \<and>
      locType (location r) = t \<and> year r = y \<and> isNumeric (field r key)"
    if "r \<in> set (getTopLocationsByField db f t ord k y)" for r
  proof -
    from that obtain row where row: "row \<in> set (take k (orderBy ord c ?Q))" and r: "r = toRecord row"
      by (auto simp add: top)
    from row set_take_orderBy [of k ord c ?Q] have "row \<in> set ?Q"
      by blast
    then have "row \<in> set (innerJoin db)" "lrType (snd row) = t" "gwYear (fst row) = y"
      "isNumeric (map_of (gwFields (fst row)) key)"
      by simp_all
    then show ?thesis
      using assms(2) by (simp add: r field_toRecord) (simp add: toRecord_def)
  qed
  have vals: "map ?v (getTopLocationsByField db f t ord k y) =
      take k (map ?w (orderBy ord c ?Q))"
    by (simp add: top take_map comp_def vw)
  have desc: "map ?v (getTopLocationsByField db f t Desc k y) = take k (rev (sort (map ?w ?Q)))"
    if "ord = Desc"
    using vals that by (simp add: sv map_sort_key_uminus)
  have asc: "map ?v (getTopLocationsByField db f t Asc k y) = take k (sort (map ?w ?Q))"
    if "ord = Asc"
    using vals that by (simp add: sv map_sort_key)
  have desc_sorted: "sorted (rev (map ?v (getTopLocationsByField db f t Desc k y)))"
    if "ord = Desc"
  proof -
    have "sorted_wrt (\<lambda>a b. b \<le> a) (rev (sort (map ?w ?Q)))"
      by (simp add: sorted_wrt_rev)
    then have "sorted_wrt (\<lambda>a b. b \<le> a) (take k (rev (sort (map ?w ?Q))))"
      by (rule sorted_wrt_take)
    then show ?thesis
      by (simp add: desc [OF that] sorted_wrt_rev)
  qed
  have asc_sorted: "sorted (map ?v (getTopLocationsByField db f t Asc k y))"
    if "ord = Asc"
    by (simp add: asc [OF that] sorted_wrt_take)
  from len mem desc asc desc_sorted asc_sorted show ?thesis
    by blast
qed

text \<open>
  C6. The claim ranks locations; the query ranks raw rows and never merges the rows
  of one location and year, as the lookup of one location does. In the store where
  the figures of the state A for 2024-2025 are two rows (rainfall 12 and 11), the top
  three states by rainfall, highest first, are returned as B with 20, A with 12 and A
  with 11: the state A twice, the state C (5) not at all, although the canonical
  record of A holds the rainfall 23, above B.
\<close>

theorem getTopLocationsByField_ranks_raw_rows:
  "map (locName \<circ> location)
     (getTopLocationsByField rankingSplitStore ''rainfall'' STATE Desc 3 ''2024-2025'') =
     [''B'', ''A'', ''A''] \<and>
   map (metricValue ''rainfall'')
     (getTopLocationsByField rankingSplitStore ''rainfall'' STATE Desc 3 ''2024-2025'') =
     [JNum 20, JNum 12, JNum 11] \<and>
   map_option data (getGroundwaterDataByLocationId rankingSplitStore ''a'' ''2024-2025'') =
     Some [(''rainfallTotal'', JNum 23), (''draftTotalTotal'', JNum 3),
           (''categoryTotal'', JStr ''Unknown''), (''categoryCommand'', JNull),
           (''categoryNonCommand'', JNull), (''categoryPoorQuality'', JNull)]"
  by (simp add: getTopLocationsByField_def fieldToColumn_def fieldMap_def toLowerCase_def
      lowerChar_def qualifying_def innerJoin_def rankingSplitStore_def columnValue_def
      columnFields_def sortValue_def toRecord_def rowObject_def metricValue_def
      metricToField_def METRIC_CONFIG_def field_def getGroundwaterDataByLocationId_def
      sumRecords_def addRecord_def mergedData_def orZero_def determineCategoryFromStage_def)

section \<open>The ranking tool: the loop and the specification\<close>

lemma valuesOf_update: "valuesOf (AList.update k v aggs) n = (if n = k then v else valuesOf aggs n)"
  by (simp add: valuesOf_def update_conv')

lemma valuesOf_pushValue:
  "valuesOf (pushValue k v aggs) n =
     (if n = k then valuesOf aggs n @ (case v of JNum x \<Rightarrow> [x] | _ \<Rightarrow> []) else valuesOf aggs n)"
  by (cases v) (simp_all add: valuesOf_update)

lemma keys_pushValue:
  "k \<in> fst ` set aggs \<Longrightarrow> map fst (pushValue k v aggs) = map fst aggs"
  by (cases v) (simp_all add: update_keys)

lemma valuesOf_noteLocation:
  "valuesOf (noteLocation k v aggs) n =
     (if n = k then valuesOf aggs n @ (case v of JNum x \<Rightarrow> [x] | _ \<Rightarrow> []) else valuesOf aggs n)"
  by (auto simp add: noteLocation_def valuesOf_pushValue valuesOf_update) (simp add: valuesOf_def)

lemma dom_noteLocation:
  "fst ` set (noteLocation k v aggs) = insert k (fst ` set aggs)"
  by (cases v) (auto simp add: noteLocation_def dom_update dest: map_of_SomeD intro: rev_image_eqI)

lemma keys_noteLocation:
  "map fst (noteLocation k v aggs) =
     (if k \<in> set (map fst aggs) then map fst aggs else map fst aggs @ [k])"
proof (cases "map_of aggs k = None")
  case True
  then have notin: "k \<notin> fst ` set aggs"
    by (simp add: map_of_eq_None_iff)
  then have "map fst (AList.update k [] aggs) = map fst aggs @ [k]"
    by (simp add: update_keys)
  moreover have "k \<in> fst ` set (AList.update k [] aggs)"
    by (simp add: dom_update)
  ultimately show ?thesis
    using True notin by (simp add: noteLocation_def keys_pushValue)
next
  case False
  then have "k \<in> fst ` set aggs"
    by (simp add: map_of_eq_None_iff)
  with False show ?thesis
    by (auto simp add: noteLocation_def keys_pushValue)
qed

lemma distinct_noteLocation:
  "distinct (map fst aggs) \<Longrightarrow> distinct (map fst (noteLocation k v aggs))"
  by (auto simp add: keys_noteLocation)

lemma accumulate_props:
  "distinct (map fst aggs) \<Longrightarrow>
   distinct (map fst (accumulate metric rs aggs)) \<and>
   fst ` set (accumulate metric rs aggs) =
     fst ` set aggs \<union> (\<lambda>r. locName (location r)) ` set rs \<and>
   (\<forall>n. valuesOf (accumulate metric rs aggs) n = valuesOf aggs n @ numbersOf metric n rs)"
proof (induction rs arbitrary: aggs)
  case Nil
  then show ?case by (simp add: accumulate_def numbersOf_def)
next
  case (Cons r rs)
  let ?a = "noteLocation (locName (location r)) (metricValue metric r) aggs"
  have step: "accumulate metric (r # rs) aggs = accumulate metric rs ?a"
    by (simp add: accumulate_def)
  have "distinct (map fst ?a)"
    using Cons.prems by (simp add: distinct_noteLocation)
  from Cons.IH [OF this] show ?case
    unfolding step
    by (auto simp add: dom_noteLocation valuesOf_noteLocation numbersOf_def)
qed


lemma locationAggregates_rankYear:
  "locationAggregates (rankYear db metric t ord k y st) =
     accumulate metric (topPerYear db metric t ord k y) (locationAggregates st)"
  by (simp add: rankYear_def topPerYear_def Let_def)

lemma yearlyRankings_rankYear:
  "yearlyRankings (rankYear db metric t ord k y st) =
     AList.update y (rankingEntries metric (topPerYear db metric t ord k y))
       (yearlyRankings st)"
  by (simp add: rankYear_def topPerYear_def Let_def)

lemma locationAggregates_fold:
  "distinct (map fst (locationAggregates st)) \<Longrightarrow>
   distinct (map fst (locationAggregates (fold (rankYear db metric t ord k) ys st))) \<and>
   fst ` set (locationAggregates (fold (rankYear db metric t ord k) ys st)) =
     fst ` set (locationAggregates st) \<union>
     (\<Union>y \<in> set ys. (\<lambda>r. locName (location r)) ` set (topPerYear db metric t ord k y)) \<and>
   (\<forall>n. valuesOf (locationAggregates (fold (rankYear db metric t ord k) ys st)) n =
      valuesOf (locationAggregates st) n @
      concat (map (\<lambda>y. numbersOf metric n (topPerYear db metric t ord k y)) ys))"
proof (induction ys arbitrary: st)
  case Nil
  then show ?case by simp
next
  case (Cons y ys)
  let ?st = "rankYear db metric t ord k y st"
  from accumulate_props [OF Cons.prems, of metric "topPerYear db metric t ord k y"]
  have d: "distinct (map fst (locationAggregates ?st))"
    and s: "fst ` set (locationAggregates ?st) =
      fst ` set (locationAggregates st) \<union>
      (\<lambda>r. locName (location r)) ` set (topPerYear db metric t ord k y)"
    and v: "\<And>n. valuesOf (locationAggregates ?st) n =
      valuesOf (locationAggregates st) n @
      numbersOf metric n (topPerYear db metric t ord k y)"
    by (simp_all add: locationAggregates_rankYear)
  from Cons.IH [OF d] show ?case
    by (simp add: s v Un_assoc)
qed

lemma yearlyRankings_fold:
  "map_of (yearlyRankings (fold (rankYear db metric t ord k) ys st)) y =
     (if y \<in> set ys
      then Some (rankingEntries metric (topPerYear db metric t ord k y))
      else map_of (yearlyRankings st) y)"
proof (induction ys arbitrary: st)
  case Nil
  show ?case by simp
next
  case (Cons a ys)
  show ?case
    by (simp add: Cons.IH yearlyRankings_rankYear update_conv')
qed

lemma find_rankingEntries_aux:
  "map_option rankValue
     (find (\<lambda>e. rankName e = n)
        (map (\<lambda>(i, r). \<lparr> rank = i + 1, rankName = locName (location r),
                         rankValue = metricValue metric r,
                         rankCategory = field r ''categoryTotal'' \<rparr>) (enumerate m rs))) =
   map_option (metricValue metric) (find (\<lambda>r. locName (location r) = n) rs)"
  by (induction rs arbitrary: m) simp_all

lemma find_rankingEntries:
  "map_option rankValue (find (\<lambda>e. rankName e = n) (rankingEntries metric rs)) =
   map_option (metricValue metric) (find (\<lambda>r. locName (location r) = n) rs)"
  unfolding rankingEntries_def by (rule find_rankingEntries_aux)

lemma hasStatsOf_summarize: "hasStatsOf (summarize (n, vs)) vs"
  by (simp add: hasStatsOf_def summarize_def foldl_plus_sum_list)

lemma aggName_summarize: "map aggName (map summarize aggs) = map fst aggs"
  by (simp add: summarize_def comp_def)

lemma summarize_valuesOf:
  assumes "distinct (map fst aggs)" and "e \<in> set (map summarize aggs)"
  shows "hasStatsOf e (valuesOf aggs (aggName e))"
proof -
  from assms(2) obtain n vs where mem: "(n, vs) \<in> set aggs" and e: "e = summarize (n, vs)"
    by auto
  from assms(1) mem have "map_of aggs n = Some vs"
    by simp
  then have "valuesOf aggs n = vs"
    by (simp add: valuesOf_def)
  moreover have "aggName e = n"
    by (simp add: e summarize_def)
  ultimately show ?thesis
    by (simp add: e hasStatsOf_summarize)
qed

lemma sorted_sortByAvg:
  "(ord = Desc \<longrightarrow> sorted (rev (map avgValue (take k (sortByAvg ord es))))) \<and>
   (ord = Asc \<longrightarrow> sorted (map avgValue (take k (sortByAvg ord es))))"
proof (cases ord)
  case Asc
  have "sorted (take k (map avgValue (sort_key avgValue es)))"
    by (intro sorted_wrt_take) simp
  with Asc show ?thesis
    by (simp add: take_map)
next
  case Desc
  have "sorted_wrt (\<lambda>a b. b \<le> a) (rev (sort (map avgValue es)))"
    by (simp add: sorted_wrt_rev)
  then have "sorted_wrt (\<lambda>a b. b \<le> a) (take k (rev (sort (map avgValue es))))"
    by (rule sorted_wrt_take)
  then have "sorted (rev (take k (map avgValue (sort_key (\<lambda>e. - avgValue e) es))))"
    by (simp add: map_sort_key_uminus sorted_wrt_rev)
  with Desc show ?thesis
    by (simp add: take_map)
qed

lemma map_of_fold_update:
  "map_of (fold (\<lambda>loc point. AList.update (g loc) (f (g loc)) point) ls init) n =
     (if n \<in> g ` set ls then Some (f n) else map_of init n)"
  by (induction ls arbitrary: init) (auto simp add: update_conv')

lemma dom_fold_update:
  "fst ` set (fold (\<lambda>loc point. AList.update (g loc) (f (g loc)) point) ls init) =
     fst ` set init \<union> g ` set ls"
  by (induction ls arbitrary: init) (auto simp add: dom_update)

lemma map_of_trendPoint:
  "map_of (trendPoint rankings leading y) n =
     (if n \<in> aggName ` set leading then Some (trendValue rankings y n)
      else if n = ''year'' then Some (JStr y) else None)"
  by (simp add: trendPoint_def map_of_fold_update)

lemma dom_trendPoint:
  "fst ` set (trendPoint rankings leading y) = insert ''year'' (aggName ` set leading)"
  by (simp add: trendPoint_def dom_fold_update)

lemma trendValue_fold:
  "y \<in> set ys \<Longrightarrow>
   trendValue (yearlyRankings (fold (rankYear db metric t ord k) ys st)) y n =
     valueInYear db metric t ord k y n"
proof -
  assume "y \<in> set ys"
  then have "map_of (yearlyRankings (fold (rankYear db metric t ord k) ys st)) y =
      Some (rankingEntries metric (topPerYear db metric t ord k y))"
    by (simp add: yearlyRankings_fold)
  moreover have "(case find (\<lambda>e. rankName e = n) (rankingEntries metric rs) of
        None \<Rightarrow> JNull | Some e \<Rightarrow> rankValue e) =
      (case find (\<lambda>r. locName (location r) = n) rs of
        None \<Rightarrow> JNull | Some r \<Rightarrow> metricValue metric r)" for rs
    using find_rankingEntries [of n metric rs]
    by (auto split: option.splits)
  ultimately show ?thesis
    by (simp add: trendValue_def valueInYear_def)
qed

lemma historicalRanking_parts:
  fixes db metric t ord k years
  shows "yearsAnalyzed (historicalRanking db metric t ord k years) = years"
    and "distinct (map aggName (map summarize (locationAggregates
            (fold (rankYear db metric t ord k) years
               \<lparr> locationAggregates = [], yearlyRankings = [] \<rparr>))))"
    and "set (map aggName (map summarize (locationAggregates
            (fold (rankYear db metric t ord k) years
               \<lparr> locationAggregates = [], yearlyRankings = [] \<rparr>)))) =
         namesInScope db metric t ord k years"
    and "\<forall>e \<in> set (map summarize (locationAggregates
            (fold (rankYear db metric t ord k) years
               \<lparr> locationAggregates = [], yearlyRankings = [] \<rparr>))).
           hasStatsOf e (valuesAcrossYears db metric t ord k years (aggName e))"
    and "rankingData (historicalRanking db metric t ord k years) =
         take k (sortByAvg ord (map summarize (locationAggregates
            (fold (rankYear db metric t ord k) years
               \<lparr> locationAggregates = [], yearlyRankings = [] \<rparr>))))"
    and "length (rankingTrend (historicalRanking db metric t ord k years)) = length years"
    and "\<forall>i < length years.
        fst ` set (rankingTrend (historicalRanking db metric t ord k years) ! i) =
          insert ''year''
            (aggName ` set (take 5 (rankingData (historicalRanking db metric t ord k years)))) \<and>
        (\<forall>e \<in> set (take 5 (rankingData (historicalRanking db metric t ord k years))).
           map_of (rankingTrend (historicalRanking db metric t ord k years) ! i) (aggName e) =
             Some (valueInYear db metric t ord k (years ! i) (aggName e))) \<and>
        (''year'' \<notin> aggName ` set (take 5 (rankingData (historicalRanking db metric t ord k years))) \<longrightarrow>
           map_of (rankingTrend (historicalRanking db metric t ord k years) ! i) ''year'' =
             Some (JStr (years ! i)))"
proof -
  let ?st = "fold (rankYear db metric t ord k) years
      \<lparr> locationAggregates = [], yearlyRankings = [] \<rparr>"
  let ?aggs = "locationAggregates ?st"
  let ?h = "historicalRanking db metric t ord k years"
  have init: "distinct (map fst (locationAggregates \<lparr> locationAggregates = [], yearlyRankings = [] \<rparr>))"
    by simp
  from locationAggregates_fold [OF init, of db metric t ord k years]
  have d: "distinct (map fst ?aggs)"
    and s: "fst ` set ?aggs = namesInScope db metric t ord k years"
    and v: "\<And>n. valuesOf ?aggs n = valuesAcrossYears db metric t ord k years n"
    by (simp_all add: namesInScope_def valuesAcrossYears_def valuesOf_def)
  show "yearsAnalyzed ?h = years"
    by (simp add: historicalRanking_def Let_def)
  show "rankingData ?h = take k (sortByAvg ord (map summarize ?aggs))"
    by (simp add: historicalRanking_def aggregatedData_def Let_def)
  show "distinct (map aggName (map summarize ?aggs))"
    using d by (simp only: aggName_summarize)
  show "set (map aggName (map summarize ?aggs)) = namesInScope db metric t ord k years"
    using s by (simp only: aggName_summarize) simp
  show "\<forall>e \<in> set (map summarize ?aggs).
      hasStatsOf e (valuesAcrossYears db metric t ord k years (aggName e))"
    using summarize_valuesOf [OF d] by (simp only: v) blast
  have tr: "rankingTrend ?h = map (trendPoint (yearlyRankings ?st) (take 5 (rankingData ?h))) years"
    by (simp add: historicalRanking_def trendData_def Let_def)
  show "length (rankingTrend ?h) = length years"
    by (simp add: tr)
  show "\<forall>i < length years.
      fst ` set (rankingTrend ?h ! i) = insert ''year'' (aggName ` set (take 5 (rankingData ?h))) \<and>
      (\<forall>e \<in> set (take 5 (rankingData ?h)).
         map_of (rankingTrend ?h ! i) (aggName e) =
           Some (valueInYear db metric t ord k (years ! i) (aggName e))) \<and>
      (''year'' \<notin> aggName ` set (take 5 (rankingData ?h)) \<longrightarrow>
         map_of (rankingTrend ?h ! i) ''year'' = Some (JStr (years ! i)))"
  proof (intro allI impI)
    fix i assume i: "i < length years"
    then have mem: "years ! i \<in> set years"
      by simp
    from i have pt: "rankingTrend ?h ! i =
        trendPoint (yearlyRankings ?st) (take 5 (rankingData ?h)) (years ! i)"
      by (simp add: tr)
    show "fst ` set (rankingTrend ?h ! i) = insert ''year'' (aggName ` set (take 5 (rankingData ?h))) \<and>
      (\<forall>e \<in> set (take 5 (rankingData ?h)).
         map_of (rankingTrend ?h ! i) (aggName e) =
           Some (valueInYear db metric t ord k (years ! i) (aggName e))) \<and>
      (''year'' \<notin> aggName ` set (take 5 (rankingData ?h)) \<longrightarrow>
         map_of (rankingTrend ?h ! i) ''year'' = Some (JStr (years ! i)))"
      by (simp only: pt dom_trendPoint map_of_trendPoint trendValue_fold [OF mem]) simp
  qed
qed

section \<open>The ranking tool: claims\<close>

text \<open>
  What the tool computes in historical mode with more than one year in scope, in the
  words of the definitions above, with the name of a location as its identity: one
  entry for each name that appears in the top \<open>k * 2\<close> list of some year, with the
  average, minimum and maximum of the values of all rows of that name across the
  years; the entries sorted by average and cut to \<open>k\<close>; one trend point for each year.
\<close>

lemma getTopLocationsTool_several_years:
  assumes "isHistorical (getFilteredYears avail p)"
    and "1 < length (yearsToQuery (getFilteredYears avail p))"
  shows "\<exists>h all.
     getTopLocationsTool db avail metric t ord k p = Historical h \<and>
     yearsAnalyzed h = yearsToQuery (getFilteredYears avail p) \<and>
     distinct (map aggName all) \<and>
     set (map aggName all) =
       namesInScope db metric t ord k (yearsToQuery (getFilteredYears avail p)) \<and>
     (\<forall>e \<in> set all.
        hasStatsOf e
          (valuesAcrossYears db metric t ord k (yearsToQuery (getFilteredYears avail p)) (aggName e))) \<and>
     rankingData h = take k (sortByAvg ord all) \<and>
     length (rankingData h) \<le> k \<and>
     (ord = Desc \<longrightarrow> sorted (rev (map avgValue (rankingData h)))) \<and>
     (ord = Asc \<longrightarrow> sorted (map avgValue (rankingData h))) \<and>
     length (rankingTrend h) = length (yearsToQuery (getFilteredYears avail p)) \<and>
     (\<forall>i < length (yearsToQuery (getFilteredYears avail p)).
        fst ` set (rankingTrend h ! i) = insert ''year'' (aggName ` set (take 5 (rankingData h))) \<and>
        (\<forall>e \<in> set (take 5 (rankingData h)).
           map_of (rankingTrend h ! i) (aggName e) =
             Some (valueInYear db metric t ord k (yearsToQuery (getFilteredYears avail p) ! i)
               (aggName e))) \<and>
        (''year'' \<notin> aggName ` set (take 5 (rankingData h)) \<longrightarrow>
           map_of (rankingTrend h ! i) ''year'' =
             Some (JStr (yearsToQuery (getFilteredYears avail p) ! i))))"
proof -
  let ?years = "yearsToQuery (getFilteredYears avail p)"
  let ?h = "historicalRanking db metric t ord k ?years"
  let ?all = "map summarize (locationAggregates
      (fold (rankYear db metric t ord k) ?years \<lparr> locationAggregates = [], yearlyRankings = [] \<rparr>))"
  note parts = historicalRanking_parts
    [where db = db and metric = metric and t = t and ord = ord and k = k and years = ?years]
  from assms have tool: "getTopLocationsTool db avail metric t ord k p = Historical ?h"
    by (simp add: getTopLocationsTool_def Let_def)
  have len: "length (rankingData ?h) \<le> k"
    by (simp add: parts(5))
  have desc: "ord = Desc \<longrightarrow> sorted (rev (map avgValue (rankingData ?h)))"
    and asc: "ord = Asc \<longrightarrow> sorted (map avgValue (rankingData ?h))"
    using sorted_sortByAvg [of ord k ?all] by (simp_all only: parts(5)) blast+
  show ?thesis
    by (intro exI [of _ ?h] exI [of _ ?all] conjI tool parts len desc asc)
qed

text \<open>
  C5. The claim accumulates the values of each location and computes the average,
  minimum and maximum for each location. The tool accumulates under the name of the
  location, so locations that share a name are pooled, while the query of one year
  lists them apart. The two districts called Bilaspur (of different states, with the
  values 10 and 30 in both years) are both in the list of a year, and the tool returns
  one entry for them, whose average 20, minimum 10 and maximum 30 belong to neither;
  its trend holds the value of the first row of the name only.
\<close>

theorem getTopLocationsTool_same_name_pooled:
  "map (locId \<circ> location)
     (getTopLocationsByField sameNameStore ''extraction'' DISTRICT Desc 10 ''2022-2023'') =
     [''b2'', ''b1''] \<and>
   getTopLocationsTool sameNameStore [''2022-2023'', ''2024-2025''] ''extraction'' DISTRICT Desc 5
     \<lparr> yearParam = None, fromYear = Some ''2022-2023'', toYear = None, specificYears = None \<rparr> =
   Historical
     \<lparr> yearsAnalyzed = [''2022-2023'', ''2024-2025''],
       rankingData = [\<lparr> aggName = ''Bilaspur'', avgValue = 20, minValue = 10, maxValue = 30 \<rparr>],
       rankingTrend = [[(''year'', JStr ''2022-2023''), (''Bilaspur'', JNum 30)],
                       [(''year'', JStr ''2024-2025''), (''Bilaspur'', JNum 30)]] \<rparr>"
  by (simp add: getTopLocationsTool_def getFilteredYears_def inRange_def historicalRanking_def
      rankYear_def getTopLocationsByField_def fieldToColumn_def fieldMap_def toLowerCase_def
      lowerChar_def qualifying_def innerJoin_def sameNameStore_def columnValue_def
      columnFields_def sortValue_def accumulate_def toRecord_def rowObject_def metricValue_def
      metricToField_def METRIC_CONFIG_def field_def noteLocation_def valuesOf_def
      rankingEntries_def aggregatedData_def summarize_def trendData_def trendPoint_def
      trendValue_def Let_def)

end
